theory Spec2Isabelle
  imports Complex_Main "HOL-Library.Multiset"
begin

section \<open>Snapshot ensemble: hyper-parameter validation, learning-rate control\<close>

text \<open>
  The development embeds \<^verbatim>\<open>torchensemble/snapshot_ensemble.py\<close>. Python integers are
  \<^typ>\<open>int\<close> (\<open>div\<close> and \<open>mod\<close> on \<^typ>\<open>int\<close> round towards minus infinity and take the
  sign of the divisor, as Python's \<^verbatim>\<open>//\<close> and \<^verbatim>\<open>%\<close> do), Python floats are idealised as
  \<^typ>\<open>real\<close>, and every exception the source can raise is a value of \<open>error\<close>.
\<close>

datatype error =
    ValueError string
  | ZeroDivisionError
  | IndexError
  | TypeError
  | AttributeError
  | ShapeError

text \<open>The configuration errors are the \<^verbatim>\<open>ValueError\<close>s.\<close>

fun config_error :: "error \<Rightarrow> bool" where
  "config_error (ValueError msg) = True"
| "config_error _ = False"

subsection \<open>The \<^verbatim>\<open>lr_clip\<close> argument\<close>

text \<open>
  \<^verbatim>\<open>lr_clip\<close> is an arbitrary Python object: \<^verbatim>\<open>None\<close>, a list or a tuple of numbers
  (the source treats both alike), or an object of another type, of which only the
  truth value matters to the source.
\<close>

datatype lr_clip = ClipNone | ClipSeq "real list" | ClipOther bool

fun truthy :: "lr_clip \<Rightarrow> bool" where
  "truthy ClipNone = False"
| "truthy (ClipSeq xs) = (xs \<noteq> [])"
| "truthy (ClipOther b) = b"

text \<open>\<^verbatim>\<open>lr_clip[i]\<close> for \<open>i\<close> in \<open>{0, 1}\<close>: IndexError past the end, TypeError on a non-sequence.\<close>

fun clip_item :: "lr_clip \<Rightarrow> nat \<Rightarrow> error + real" where
  "clip_item (ClipSeq xs) i = (if i < length xs then Inr (xs ! i) else Inl IndexError)"
| "clip_item _ i = Inl TypeError"

subsection \<open>\<^verbatim>\<open>_BaseSnapshotEnsemble._validate_parameters\<close>\<close>

text \<open>The block guarded by \<^verbatim>\<open>if lr_clip:\<close>.\<close>

fun validate_lr_clip :: "lr_clip \<Rightarrow> error + unit" where
  "validate_lr_clip (ClipSeq xs) =
     (if length xs \<noteq> 2 then Inl (ValueError ''lr_clip should only have two elements'')
      else if \<not> xs ! 0 < xs ! 1 then Inl (ValueError ''lr_clip first element should be smaller'')
      else Inr ())"
| "validate_lr_clip _ = Inl (ValueError ''lr_clip should be a list or tuple'')"

definition validate_parameters ::
  "int \<Rightarrow> real \<Rightarrow> lr_clip \<Rightarrow> real \<Rightarrow> int \<Rightarrow> int \<Rightarrow> error + unit" where
  "validate_parameters n_estimators init_lr lr_clip weight_decay epochs log_interval =
     (if \<not> init_lr > 0 then Inl (ValueError ''init_lr should be strictly positive'')
      else case (if truthy lr_clip then validate_lr_clip lr_clip else Inr ()) of
        Inl e \<Rightarrow> Inl e
      | Inr _ \<Rightarrow>
          if \<not> weight_decay \<ge> 0 then Inl (ValueError ''weight_decay should not be negative'')
          else if \<not> epochs > 0 then Inl (ValueError ''epochs should be strictly positive'')
          else if \<not> log_interval > 0
            then Inl (ValueError ''log_interval should be strictly positive'')
          else if n_estimators = 0 then Inl ZeroDivisionError
          else if \<not> epochs mod n_estimators = 0
            then Inl (ValueError ''epochs should be a multiple of n_estimators'')
          else Inr ())"

subsection \<open>The optimizer's learning-rate fields and \<^verbatim>\<open>_clip_lr\<close>\<close>

text \<open>
  Of the optimizer only the \<^verbatim>\<open>"lr"\<close> entry of each parameter group is visible to the
  source: \<open>param_groups\<close> lists them in order.
\<close>

record optimizer =
  param_groups :: "real list"

text \<open>The body of the \<^verbatim>\<open>for param_group\<close> loop: two successive tests on the updated field.\<close>

definition clip_group :: "real \<Rightarrow> real \<Rightarrow> real \<Rightarrow> real" where
  "clip_group lo hi lr =
     (let lr1 = (if lr < lo then lo else lr) in
      if lr1 > hi then hi else lr1)"

definition clip_lr :: "optimizer \<Rightarrow> lr_clip \<Rightarrow> error + optimizer" where
  "clip_lr opt lr_clip =
     (if \<not> truthy lr_clip then Inr opt
      else if param_groups opt = [] then Inr opt
      else case clip_item lr_clip 0 of
        Inl e \<Rightarrow> Inl e
      | Inr lo \<Rightarrow>
          (case clip_item lr_clip 1 of
             Inl e \<Rightarrow> Inl e
           | Inr hi \<Rightarrow> Inr (opt\<lparr>param_groups := map (clip_group lo hi) (param_groups opt)\<rparr>)))"

subsection \<open>\<^verbatim>\<open>_set_scheduler\<close> and the \<^verbatim>\<open>LambdaLR\<close> it builds\<close>

text \<open>
  \<^verbatim>\<open>T_M = math.ceil(n_iters / self.n_estimators)\<close>, over exact arithmetic; the true
  division raises on a zero divisor.
\<close>

definition cycle_length :: "int \<Rightarrow> int \<Rightarrow> error + int" where
  "cycle_length n_iters n_estimators =
     (if n_estimators = 0 then Inl ZeroDivisionError
      else Inr \<lceil>real_of_int n_iters / real_of_int n_estimators\<rceil>)"

text \<open>
  The closure \<^verbatim>\<open>lr_lambda\<close>; \<^verbatim>\<open>iteration % T_M\<close> raises when \<open>T_M\<close> is zero. The
  cosine is torch's: \<open>torch_cos x\<close> is the value of \<^verbatim>\<open>torch.cos(torch.tensor(x))\<close>, computed
  on a float32 tensor, and is a parameter here. The argument, a Python float, and the
  arithmetic on the result are idealised over the reals.
\<close>

definition lr_lambda :: "(real \<Rightarrow> real) \<Rightarrow> int \<Rightarrow> int \<Rightarrow> error + real" where
  "lr_lambda torch_cos T_M iteration =
     (if T_M = 0 then Inl ZeroDivisionError
      else Inr (0.5 * (torch_cos (pi * real_of_int (iteration mod T_M) / real_of_int T_M) + 1)))"

text \<open>
  A model of float32 numbers as the reals they denote: a significand of 24 bits, rounding
  to the nearest such number with ties to the even significand, and no bound on the
  exponent (neither overflow nor subnormal numbers). \<open>cos32\<close> is the cosine on a float32
  tensor, taken to be correctly rounded: the argument is rounded to float32 when the tensor
  is built, and the result of the cosine is rounded to float32 again.
\<close>

definition round_half_even :: "real \<Rightarrow> int" where
  "round_half_even x =
     (let f = \<lfloor>x\<rfloor>; r = x - of_int f in
      if r < 1 / 2 then f else if r > 1 / 2 then f + 1 else if even f then f else f + 1)"

definition round32 :: "real \<Rightarrow> real" where
  "round32 x =
     (if x = 0 then 0
      else (let u = 2 powr (of_int (\<lfloor>log 2 \<bar>x\<bar>\<rfloor> - 23)) in
            u * of_int (round_half_even (x / u))))"

definition cos32 :: "real \<Rightarrow> real" where
  "cos32 x = round32 (cos (round32 x))"

text \<open>
  \<^verbatim>\<open>torch.optim.lr_scheduler.LambdaLR\<close>: it remembers each group's initial rate and a
  step count \<open>last_epoch\<close>; \<^verbatim>\<open>step()\<close> increments the count and sets every group's rate to
  its initial rate times \<^verbatim>\<open>lr_lambda(last_epoch)\<close>. The constructor performs one such
  step from \<open>last_epoch = -1\<close>. The closure is kept as its two captured values, the
  cosine and the period \<open>T_M\<close>.
\<close>

record scheduler =
  base_lrs :: "real list"
  last_epoch :: int
  cosine :: "real \<Rightarrow> real"
  period :: int

definition scheduler_step :: "scheduler \<Rightarrow> optimizer \<Rightarrow> error + scheduler \<times> optimizer" where
  "scheduler_step sch opt =
     (let sch1 = sch\<lparr>last_epoch := last_epoch sch + 1\<rparr> in
      case lr_lambda (cosine sch1) (period sch1) (last_epoch sch1) of
        Inl e \<Rightarrow> Inl e
      | Inr m \<Rightarrow> Inr (sch1, opt\<lparr>param_groups := map (\<lambda>b. b * m) (base_lrs sch1)\<rparr>))"

definition set_scheduler ::
  "(real \<Rightarrow> real) \<Rightarrow> int \<Rightarrow> optimizer \<Rightarrow> int \<Rightarrow> error + scheduler \<times> optimizer" where
  "set_scheduler torch_cos n_estimators opt n_iters =
     (case cycle_length n_iters n_estimators of
        Inl e \<Rightarrow> Inl e
      | Inr T_M \<Rightarrow>
          scheduler_step
            \<lparr>base_lrs = param_groups opt, last_epoch = - 1, cosine = torch_cos, period = T_M\<rparr>
            opt)"

section \<open>The training loop of \<^verbatim>\<open>fit\<close>\<close>

subsection \<open>Arguments, collaborators and state\<close>

text \<open>
  A data loader is the finite sequence of its batches; \<^verbatim>\<open>len(train_loader)\<close> is the
  length of that sequence. Of the validation loader the source also reads
  \<^verbatim>\<open>len(test_loader.dataset)\<close>. The test \<^verbatim>\<open>if test_loader\<close> is Python's truth value
  of the argument: false for \<^verbatim>\<open>None\<close>, and for a loader (which defines \<^verbatim>\<open>__len__\<close>) false
  exactly when it has no batches.
\<close>

record 'v test_loader =
  batches :: "'v list"
  dataset_len :: nat

fun loader_truthy :: "'v test_loader option \<Rightarrow> bool" where
  "loader_truthy None = False"
| "loader_truthy (Some ldr) = (batches ldr \<noteq> [])"

text \<open>The keyword arguments of \<^verbatim>\<open>fit\<close> that influence control flow.\<close>

record ('b, 'v) fit_args =
  train_loader :: "'b list"
  init_lr :: real
  lr_clip :: lr_clip
  weight_decay :: real
  epochs :: int
  log_interval :: int
  test_loader :: "'v test_loader option"
  save_model :: bool

text \<open>
  The external collaborators, as opaque total functions: \<open>make_estimator\<close> is the fresh
  model of \<^verbatim>\<open>self._make_estimator()\<close>; \<open>train_step lrs batch m\<close> is the model after
  forward pass, loss, \<^verbatim>\<open>backward()\<close> and \<^verbatim>\<open>optimizer.step()\<close> on one batch with the
  parameter groups' current rates \<open>lrs\<close>; \<open>n_groups\<close> is the number of parameter groups
  of the optimizer; \<open>torch_cos\<close> is the cosine on a float32 tensor that the scheduler's
  closure calls. Console output has no influence on control flow and is left out.
\<close>

record ('m, 'b) collaborators =
  make_estimator :: 'm
  n_groups :: nat
  train_step :: "real list \<Rightarrow> 'b \<Rightarrow> 'm \<Rightarrow> 'm"
  torch_cos :: "real \<Rightarrow> real"

text \<open>
  Modelled from the spec: \<^verbatim>\<open>utils.set_optimizer\<close> is not among the sources. The optimizer
  it returns holds one or more parameter groups, each with a mutable learning-rate field
  that starts at \<open>init_lr\<close>.
\<close>

definition set_optimizer :: "nat \<Rightarrow> real \<Rightarrow> optimizer" where
  "set_optimizer k lr0 = \<lparr>param_groups = replicate k lr0\<rparr>"

text \<open>
  The mutable variables of one \<^verbatim>\<open>fit\<close> call: the live model \<^verbatim>\<open>estimator_\<close> (field
  \<open>estimator\<close>; an identifier cannot end in an underscore here), the optimizer
  and scheduler, \<open>counter\<close>, the best validation score so far, the collector
  \<^verbatim>\<open>self.estimators_\<close> (field \<open>estimators\<close>), and the persistence target as the
  sequence of ensembles handed to \<^verbatim>\<open>utils.save\<close>, oldest first.
\<close>

record ('m, 'q) fit_state =
  estimator :: 'm
  optimizer :: optimizer
  scheduler :: scheduler
  counter :: int
  best :: 'q
  estimators :: "'m list"
  saved :: "'m list list"

subsection \<open>One batch, one epoch\<close>

text \<open>The body of the inner \<^verbatim>\<open>for batch_idx, (data, target)\<close> loop.\<close>

definition train_batch ::
  "(real list \<Rightarrow> 'b \<Rightarrow> 'm \<Rightarrow> 'm) \<Rightarrow> lr_clip \<Rightarrow> 'b \<Rightarrow> ('m, 'q) fit_state
     \<Rightarrow> error + ('m, 'q) fit_state" where
  "train_batch step clip batch s =
     (case clip_lr (optimizer s) clip of
        Inl e \<Rightarrow> Inl e
      | Inr o1 \<Rightarrow>
          (let m = step (param_groups o1) batch (estimator s) in
           case scheduler_step (scheduler s) o1 of
             Inl e \<Rightarrow> Inl e
           | Inr (sch, o2) \<Rightarrow>
               Inr (s\<lparr>estimator := m, optimizer := o2, scheduler := sch,
                       counter := counter s + 1\<rparr>)))"

fun train_batches ::
  "(real list \<Rightarrow> 'b \<Rightarrow> 'm \<Rightarrow> 'm) \<Rightarrow> lr_clip \<Rightarrow> 'b list \<Rightarrow> ('m, 'q) fit_state
     \<Rightarrow> error + ('m, 'q) fit_state" where
  "train_batches step clip [] s = Inr s"
| "train_batches step clip (b # bs) s =
     (case train_batch step clip b s of
        Inl e \<Rightarrow> Inl e
      | Inr s' \<Rightarrow> train_batches step clip bs s')"

text \<open>
  The comparison and the two assignments under \<^verbatim>\<open>if acc > best_acc\<close>
  (\<^verbatim>\<open>if mse < best_mse\<close>): \<open>better v b\<close> is the comparison, \<open>store v\<close> the new best.
\<close>

definition validation_gate ::
  "(real \<Rightarrow> 'q \<Rightarrow> bool) \<Rightarrow> (real \<Rightarrow> 'q) \<Rightarrow> bool \<Rightarrow> real \<Rightarrow> ('m, 'q) fit_state
     \<Rightarrow> ('m, 'q) fit_state" where
  "validation_gate better store save v s =
     (if better v (best s)
      then (let s1 = s\<lparr>best := store v\<rparr> in
            if save then s1\<lparr>saved := saved s1 @ [estimators s1]\<rparr> else s1)
      else s)"

text \<open>
  The two \<^verbatim>\<open>if\<close> statements after the batch loop. \<open>ipe\<close> is
  \<^verbatim>\<open>n_iters_per_estimator\<close>; \<^verbatim>\<open>counter % n_iters_per_estimator\<close> raises when it is zero.
  \<open>score\<close> is the validation sweep over the test loader with the current collector.
\<close>

definition end_of_epoch ::
  "('m list \<Rightarrow> 'v test_loader \<Rightarrow> error + real) \<Rightarrow> (real \<Rightarrow> 'q \<Rightarrow> bool) \<Rightarrow> (real \<Rightarrow> 'q)
     \<Rightarrow> int \<Rightarrow> 'v test_loader option \<Rightarrow> bool \<Rightarrow> ('m, 'q) fit_state
     \<Rightarrow> error + ('m, 'q) fit_state" where
  "end_of_epoch score better store ipe ldr save s =
     (if ipe = 0 then Inl ZeroDivisionError
      else
        (let s1 = (if counter s mod ipe = 0
                   then s\<lparr>estimators := estimators s @ [estimator s]\<rparr> else s) in
         case ldr of
           None \<Rightarrow> Inr s1
         | Some l \<Rightarrow>
             if batches l \<noteq> [] \<and> counter s1 mod ipe = 0
             then (case score (estimators s1) l of
                     Inl e \<Rightarrow> Inl e
                   | Inr v \<Rightarrow> Inr (validation_gate better store save v s1))
             else Inr s1))"

text \<open>One iteration of the outer \<^verbatim>\<open>for epoch in range(epochs)\<close> loop.\<close>

definition epoch_step ::
  "('m list \<Rightarrow> 'v test_loader \<Rightarrow> error + real) \<Rightarrow> (real \<Rightarrow> 'q \<Rightarrow> bool) \<Rightarrow> (real \<Rightarrow> 'q)
     \<Rightarrow> (real list \<Rightarrow> 'b \<Rightarrow> 'm \<Rightarrow> 'm) \<Rightarrow> int \<Rightarrow> ('b, 'v) fit_args \<Rightarrow> ('m, 'q) fit_state
     \<Rightarrow> error + ('m, 'q) fit_state" where
  "epoch_step score better store step ipe args s =
     (case train_batches step (lr_clip args) (train_loader args) s of
        Inl e \<Rightarrow> Inl e
      | Inr s' \<Rightarrow> end_of_epoch score better store ipe (test_loader args) (save_model args) s')"

text \<open>The first \<open>k\<close> iterations of the outer loop.\<close>

fun run_epochs ::
  "(('m, 'q) fit_state \<Rightarrow> error + ('m, 'q) fit_state) \<Rightarrow> nat \<Rightarrow> ('m, 'q) fit_state
     \<Rightarrow> error + ('m, 'q) fit_state" where
  "run_epochs f 0 s = Inr s"
| "run_epochs f (Suc k) s =
     (case run_epochs f k s of
        Inl e \<Rightarrow> Inl e
      | Inr s' \<Rightarrow> f s')"

subsection \<open>\<^verbatim>\<open>fit\<close>\<close>

text \<open>\<^verbatim>\<open>epochs * len(train_loader) // self.n_estimators\<close>.\<close>

definition n_iters_per_estimator :: "int \<Rightarrow> int \<Rightarrow> error + int" where
  "n_iters_per_estimator n_iters n_estimators =
     (if n_estimators = 0 then Inl ZeroDivisionError else Inr (n_iters div n_estimators))"

text \<open>
  Everything of \<^verbatim>\<open>fit\<close> up to the training loop: validation of the hyper-parameters,
  the fresh model, optimizer and scheduler, and the initial values of the loop variables.
  The result pairs \<^verbatim>\<open>n_iters_per_estimator\<close> with the initial state. \<open>ests0\<close> is the
  content of \<^verbatim>\<open>self.estimators_\<close> when \<^verbatim>\<open>fit\<close> is called (empty for a new ensemble).
  The first statement of \<^verbatim>\<open>fit\<close>, \<^verbatim>\<open>self._decide_n_outputs\<close>, belongs to the base class,
  which is not among the sources; it sets \<^verbatim>\<open>self.n_outputs\<close>, which the training loop
  does not read.
\<close>

definition fit_init ::
  "'q \<Rightarrow> ('m, 'b) collaborators \<Rightarrow> int \<Rightarrow> 'm list \<Rightarrow> ('b, 'v) fit_args
     \<Rightarrow> error + int \<times> ('m, 'q) fit_state" where
  "fit_init best0 env n_estimators ests0 args =
     (case validate_parameters n_estimators (init_lr args) (lr_clip args) (weight_decay args)
             (epochs args) (log_interval args) of
        Inl e \<Rightarrow> Inl e
      | Inr _ \<Rightarrow>
          (let n_iters = epochs args * int (length (train_loader args)) in
           case set_scheduler (torch_cos env) n_estimators
                  (set_optimizer (n_groups env) (init_lr args)) n_iters of
             Inl e \<Rightarrow> Inl e
           | Inr (sch, opt) \<Rightarrow>
               (case n_iters_per_estimator n_iters n_estimators of
                  Inl e \<Rightarrow> Inl e
                | Inr ipe \<Rightarrow>
                    Inr (ipe, \<lparr>estimator = make_estimator env, optimizer = opt, scheduler = sch,
                               counter = 0, best = best0, estimators = ests0, saved = []\<rparr>))))"

text \<open>The state after the first \<open>k\<close> epochs of the training loop of \<^verbatim>\<open>fit\<close>.\<close>

definition fit_epochs ::
  "('m list \<Rightarrow> 'v test_loader \<Rightarrow> error + real) \<Rightarrow> (real \<Rightarrow> 'q \<Rightarrow> bool) \<Rightarrow> (real \<Rightarrow> 'q) \<Rightarrow> 'q
     \<Rightarrow> ('m, 'b) collaborators \<Rightarrow> int \<Rightarrow> 'm list \<Rightarrow> ('b, 'v) fit_args \<Rightarrow> nat
     \<Rightarrow> error + ('m, 'q) fit_state" where
  "fit_epochs score better store best0 env n_estimators ests0 args k =
     (case fit_init best0 env n_estimators ests0 args of
        Inl e \<Rightarrow> Inl e
      | Inr (ipe, s0) \<Rightarrow>
          run_epochs (epoch_step score better store (train_step env) ipe args) k s0)"

text \<open>
  The whole of \<^verbatim>\<open>fit\<close>: all \<^verbatim>\<open>epochs\<close> iterations of the loop, then the final
  \<^verbatim>\<open>if save_model and not test_loader\<close>. The classifier's and the regressor's \<^verbatim>\<open>fit\<close>
  differ only in the validation sweep, the comparison and the initial best score.
\<close>

definition fit ::
  "('m list \<Rightarrow> 'v test_loader \<Rightarrow> error + real) \<Rightarrow> (real \<Rightarrow> 'q \<Rightarrow> bool) \<Rightarrow> (real \<Rightarrow> 'q) \<Rightarrow> 'q
     \<Rightarrow> ('m, 'b) collaborators \<Rightarrow> int \<Rightarrow> 'm list \<Rightarrow> ('b, 'v) fit_args
     \<Rightarrow> error + ('m, 'q) fit_state" where
  "fit score better store best0 env n_estimators ests0 args =
     (case fit_epochs score better store best0 env n_estimators ests0 args (nat (epochs args)) of
        Inl e \<Rightarrow> Inl e
      | Inr s \<Rightarrow>
          Inr (if save_model args \<and> \<not> loader_truthy (test_loader args)
               then s\<lparr>saved := saved s @ [estimators s]\<rparr> else s))"

subsection \<open>The classifier and the regressor\<close>

text \<open>
  The validation sweep of \<^verbatim>\<open>SnapshotEnsembleClassifier.fit\<close>: \<open>n_correct ests batch\<close> is
  the number of correct predictions of the ensemble on one batch;
  \<^verbatim>\<open>acc = 100. * float(correct) / len(test_loader.dataset)\<close>.
\<close>

definition validation_acc ::
  "('m list \<Rightarrow> 'v \<Rightarrow> nat) \<Rightarrow> 'm list \<Rightarrow> 'v test_loader \<Rightarrow> error + real" where
  "validation_acc n_correct ests ldr =
     (let correct = sum_list (map (n_correct ests) (batches ldr)) in
      if dataset_len ldr = 0 then Inl ZeroDivisionError
      else Inr (100 * real correct / real (dataset_len ldr)))"

text \<open>
  The validation sweep of \<^verbatim>\<open>SnapshotEnsembleRegressor.fit\<close>: \<open>batch_mse ests batch\<close> is the
  criterion on one batch; \<^verbatim>\<open>mse /= len(test_loader)\<close>.
\<close>

definition validation_mse ::
  "('m list \<Rightarrow> 'v \<Rightarrow> real) \<Rightarrow> 'm list \<Rightarrow> 'v test_loader \<Rightarrow> error + real" where
  "validation_mse batch_mse ests ldr =
     (let mse = sum_list (map (batch_mse ests) (batches ldr)) in
      if batches ldr = [] then Inl ZeroDivisionError
      else Inr (mse / real (length (batches ldr))))"

text \<open>\<^verbatim>\<open>best_acc = 0.\<close> and \<^verbatim>\<open>acc > best_acc\<close>.\<close>

definition classifier_fit ::
  "('m list \<Rightarrow> 'v \<Rightarrow> nat) \<Rightarrow> ('m, 'b) collaborators \<Rightarrow> int \<Rightarrow> 'm list \<Rightarrow> ('b, 'v) fit_args
     \<Rightarrow> error + ('m, real) fit_state" where
  "classifier_fit n_correct =
     fit (validation_acc n_correct) (\<lambda>acc best_acc. acc > best_acc) (\<lambda>acc. acc) 0"

text \<open>
  \<^verbatim>\<open>best_mse = float("inf")\<close> and \<^verbatim>\<open>mse < best_mse\<close>: the best error is \<open>None\<close> while it
  is still infinite, and every finite error is below it.
\<close>

fun mse_better :: "real \<Rightarrow> real option \<Rightarrow> bool" where
  "mse_better mse None = True"
| "mse_better mse (Some best_mse) = (mse < best_mse)"

definition regressor_fit ::
  "('m list \<Rightarrow> 'v \<Rightarrow> real) \<Rightarrow> ('m, 'b) collaborators \<Rightarrow> int \<Rightarrow> 'm list \<Rightarrow> ('b, 'v) fit_args
     \<Rightarrow> error + ('m, real option) fit_state" where
  "regressor_fit batch_mse =
     fit (validation_mse batch_mse) mse_better Some None"

text \<open>
  The state of the classifier's \<^verbatim>\<open>fit\<close> after the first \<open>k\<close> epochs of its loop, and the
  same for the regressor.
\<close>

definition classifier_fit_epochs ::
  "('m list \<Rightarrow> 'v \<Rightarrow> nat) \<Rightarrow> ('m, 'b) collaborators \<Rightarrow> int \<Rightarrow> 'm list \<Rightarrow> ('b, 'v) fit_args
     \<Rightarrow> nat \<Rightarrow> error + ('m, real) fit_state" where
  "classifier_fit_epochs n_correct =
     fit_epochs (validation_acc n_correct) (\<lambda>acc best_acc. acc > best_acc) (\<lambda>acc. acc) 0"

definition regressor_fit_epochs ::
  "('m list \<Rightarrow> 'v \<Rightarrow> real) \<Rightarrow> ('m, 'b) collaborators \<Rightarrow> int \<Rightarrow> 'm list \<Rightarrow> ('b, 'v) fit_args
     \<Rightarrow> nat \<Rightarrow> error + ('m, real option) fit_state" where
  "regressor_fit_epochs batch_mse =
     fit_epochs (validation_mse batch_mse) mse_better Some None"

section \<open>Prediction: \<^verbatim>\<open>_forward\<close> and \<^verbatim>\<open>forward\<close>\<close>

text \<open>
  A two-dimensional tensor is the list of its rows. A snapshot is the function it
  computes on an input batch, and a batch is the list of its samples, so that
  \<^verbatim>\<open>X.size()[0]\<close> is its length.
\<close>

type_synonym tensor = "real list list"

definition zeros :: "nat \<Rightarrow> nat \<Rightarrow> tensor" where
  "zeros batch_size n_outputs = replicate batch_size (replicate n_outputs 0)"

text \<open>\<^verbatim>\<open>t / k\<close> for a tensor and a positive integer.\<close>

definition tdiv :: "tensor \<Rightarrow> nat \<Rightarrow> tensor" where
  "tdiv t k = map (map (\<lambda>x. x / real k)) t"

text \<open>
  \<^verbatim>\<open>output += t\<close>: elementwise on tensors of equal shape. Unequal shapes are an error
  here; the cases that torch would broadcast are outside the model.
\<close>

definition tadd :: "tensor \<Rightarrow> tensor \<Rightarrow> error + tensor" where
  "tadd a b =
     (if map length a = map length b then Inr (map2 (map2 (+)) a b) else Inl ShapeError)"

text \<open>
  \<^verbatim>\<open>self.n_outputs\<close> is an attribute that \<^verbatim>\<open>__init__\<close> does not create: only \<^verbatim>\<open>fit\<close>
  assigns it. It is \<open>None\<close> here while the attribute does not exist, and reading it
  then, in the second statement of \<^verbatim>\<open>_forward\<close>, raises \<^verbatim>\<open>AttributeError\<close>.
\<close>

definition forward_base ::
  "nat option \<Rightarrow> ('x list \<Rightarrow> tensor) list \<Rightarrow> 'x list \<Rightarrow> error + tensor" where
  "forward_base n_outputs ests X =
     (case n_outputs of
        None \<Rightarrow> Inl AttributeError
      | Some n \<Rightarrow>
          fold (\<lambda>est acc. case acc of
                            Inl e \<Rightarrow> Inl e
                          | Inr output \<Rightarrow> tadd output (tdiv (est X) (length ests)))
               ests (Inr (zeros (length X) n)))"

text \<open>
  The attribute \<^verbatim>\<open>self.n_outputs\<close> after a call of \<^verbatim>\<open>fit\<close>: the first statement of
  \<^verbatim>\<open>fit\<close> assigns it, before the hyper-parameters are validated, so it is set however
  the call ends. Its value \<open>decided\<close> is the result of \<^verbatim>\<open>_decide_n_outputs\<close> of the base
  class, which is not among the sources.
\<close>

definition n_outputs_after_fit :: "nat \<Rightarrow> nat option \<Rightarrow> nat option" where
  "n_outputs_after_fit decided before = Some decided"

text \<open>\<^verbatim>\<open>F.softmax(proba, dim=1)\<close>.\<close>

definition softmax_row :: "real list \<Rightarrow> real list" where
  "softmax_row xs = map (\<lambda>x. exp x / sum_list (map exp xs)) xs"

definition softmax :: "tensor \<Rightarrow> tensor" where
  "softmax t = map softmax_row t"

definition classifier_forward ::
  "nat option \<Rightarrow> ('x list \<Rightarrow> tensor) list \<Rightarrow> 'x list \<Rightarrow> error + tensor" where
  "classifier_forward n_outputs ests X =
     (case forward_base n_outputs ests X of
        Inl e \<Rightarrow> Inl e
      | Inr proba \<Rightarrow> Inr (softmax proba))"

definition regressor_forward ::
  "nat option \<Rightarrow> ('x list \<Rightarrow> tensor) list \<Rightarrow> 'x list \<Rightarrow> error + tensor" where
  "regressor_forward n_outputs ests X = forward_base n_outputs ests X"

section \<open>The specification's wording\<close>

text \<open>
  The elementwise arithmetic mean of the snapshots' raw outputs, for outputs of
  \<open>batch_size\<close> rows and \<open>n_outputs\<close> columns.
\<close>

definition mean_of_outputs :: "nat \<Rightarrow> nat \<Rightarrow> tensor list \<Rightarrow> tensor" where
  "mean_of_outputs batch_size n_outputs outs =
     map (\<lambda>i. map (\<lambda>j. sum_list (map (\<lambda>t. t ! i ! j) outs) / real (length outs)) [0..<n_outputs])
         [0..<batch_size]"

definition has_shape :: "nat \<Rightarrow> nat \<Rightarrow> tensor \<Rightarrow> bool" where
  "has_shape batch_size n_outputs t \<longleftrightarrow>
     length t = batch_size \<and> list_all (\<lambda>row. length row = n_outputs) t"

text \<open>
  The specification's list of rejected configurations: \<open>lr_clip\<close> is malformed when it is
  present and not a list or tuple of two elements, or its lower bound is not below its
  upper bound.
\<close>

fun spec_lr_clip_malformed :: "lr_clip \<Rightarrow> bool" where
  "spec_lr_clip_malformed ClipNone = False"
| "spec_lr_clip_malformed (ClipSeq xs) = (length xs \<noteq> 2 \<or> xs ! 0 \<ge> xs ! 1)"
| "spec_lr_clip_malformed (ClipOther b) = True"

definition spec_rejects :: "int \<Rightarrow> int \<Rightarrow> real \<Rightarrow> lr_clip \<Rightarrow> real \<Rightarrow> int \<Rightarrow> int \<Rightarrow> bool" where
  "spec_rejects n_cycles batches_per_epoch lr0 clip wd n_epochs interval \<longleftrightarrow>
     lr0 \<le> 0 \<or> wd < 0 \<or> n_epochs \<le> 0 \<or> interval \<le> 0 \<or> spec_lr_clip_malformed clip
     \<or> \<not> (n_epochs * batches_per_epoch) mod n_cycles = 0"

text \<open>
  A best error \<open>new\<close> is no worse than \<open>old\<close>, where \<open>None\<close> is the infinite error.
\<close>

fun mse_no_worse :: "real option \<Rightarrow> real option \<Rightarrow> bool" where
  "mse_no_worse new None = True"
| "mse_no_worse None (Some old) = False"
| "mse_no_worse (Some new) (Some old) = (new \<le> old)"

section \<open>The end-to-end scenario of the specification\<close>

text \<open>
  Six epochs of ten batches and three cycles. The model counts the optimizer updates it
  has received, the optimizer has one parameter group, and the scheduler's cosine is the
  float32 cosine. The validation set has one
  batch of a hundred samples, on which the ensembles of one, two and three snapshots
  score 70, 65 and 80 correct predictions, and a batch error of 3, 5 and 2.
\<close>

definition scenario_env :: "(nat, unit) collaborators" where
  "scenario_env =
     \<lparr>make_estimator = 0, n_groups = 1, train_step = (\<lambda>lrs batch m. Suc m),
      torch_cos = cos32\<rparr>"

definition scenario_args :: "(unit, unit) fit_args" where
  "scenario_args =
     \<lparr>train_loader = replicate 10 (), init_lr = 1 / 10, lr_clip = ClipSeq [1 / 100, 1 / 10],
      weight_decay = 0, epochs = 6, log_interval = 100,
      test_loader = Some \<lparr>batches = [()], dataset_len = 100\<rparr>, save_model = True\<rparr>"

definition scenario_correct :: "nat list \<Rightarrow> unit \<Rightarrow> nat" where
  "scenario_correct es batch = (if length es = 1 then 70 else if length es = 2 then 65 else 80)"

definition scenario_mse :: "nat list \<Rightarrow> unit \<Rightarrow> real" where
  "scenario_mse es batch = (if length es = 1 then 3 else if length es = 2 then 5 else 2)"

text \<open>
  The smallest run: one epoch of one batch, one cycle, no validation loader, and
  \<^verbatim>\<open>save_model=False\<close>.
\<close>

definition small_args :: "(unit, unit) fit_args" where
  "small_args =
     \<lparr>train_loader = [()], init_lr = 1 / 10, lr_clip = ClipNone, weight_decay = 0, epochs = 1,
      log_interval = 1, test_loader = None, save_model = False\<rparr>"

text \<open>
  A state at the start of an epoch of four batches in which a cycle lasts two
  iterations.
\<close>

definition short_cycle_state :: "(nat, real) fit_state" where
  "short_cycle_state =
     \<lparr>estimator = 0, optimizer = \<lparr>param_groups = [1 / 10]\<rparr>,
      scheduler = \<lparr>base_lrs = [1 / 10], last_epoch = 0, cosine = cos32, period = 2\<rparr>,
      counter = 0, best = 0, estimators = [], saved = []\<rparr>"

section \<open>Verified properties\<close>

subsection \<open>The learning-rate clipper\<close>

lemma clip_group_bounds: "lo < hi \<Longrightarrow> lo \<le> clip_group lo hi r \<and> clip_group lo hi r \<le> hi"
  by (simp add: clip_group_def Let_def)

lemma clip_group_id: "lo \<le> r \<Longrightarrow> r \<le> hi \<Longrightarrow> clip_group lo hi r = r"
  by (simp add: clip_group_def Let_def)

text \<open>
  C8: for a bound \<open>(lo, hi)\<close> with \<open>lo < hi\<close>, \<^verbatim>\<open>_clip_lr\<close> returns normally, keeps the
  number of parameter groups, leaves every group's rate \<open>c\<close> with \<open>lo \<le> c \<le> hi\<close>, and
  leaves a rate that was already within the bound as it was; with no bound the optimizer
  is returned unchanged.
\<close>

theorem clip_lr_bounds:
  "lo < hi \<Longrightarrow>
   (\<exists>opt'. clip_lr opt (ClipSeq [lo, hi]) = Inr opt'
      \<and> length (param_groups opt') = length (param_groups opt)
      \<and> (\<forall>i < length (param_groups opt).
            lo \<le> param_groups opt' ! i \<and> param_groups opt' ! i \<le> hi
            \<and> (lo \<le> param_groups opt ! i \<and> param_groups opt ! i \<le> hi
                 \<longrightarrow> param_groups opt' ! i = param_groups opt ! i)))
   \<and> clip_lr opt ClipNone = Inr opt"
proof -
  assume lt: "lo < hi"
  let ?opt' = "opt\<lparr>param_groups := map (clip_group lo hi) (param_groups opt)\<rparr>"
  have run: "clip_lr opt (ClipSeq [lo, hi]) = Inr ?opt'"
    by (simp add: clip_lr_def)
  have none: "clip_lr opt ClipNone = Inr opt"
    by (simp add: clip_lr_def)
  have each: "\<forall>i < length (param_groups opt).
            lo \<le> param_groups ?opt' ! i \<and> param_groups ?opt' ! i \<le> hi
            \<and> (lo \<le> param_groups opt ! i \<and> param_groups opt ! i \<le> hi
                 \<longrightarrow> param_groups ?opt' ! i = param_groups opt ! i)"
    using lt by (simp add: clip_group_bounds clip_group_id)
  show ?thesis using run none each by simp
qed

theorem clip_lr_bounds_witness:
  "clip_lr \<lparr>param_groups = [1/20, 3/10, 9/10]\<rparr> (ClipSeq [1/10, 1/2])
     = Inr \<lparr>param_groups = [1/10, 3/10, 1/2]\<rparr>
   \<and> clip_lr \<lparr>param_groups = [1/20, 3/10, 9/10]\<rparr> ClipNone
     = Inr \<lparr>param_groups = [1/20, 3/10, 9/10]\<rparr>"
  using clip_lr_bounds [of "1/10" "1/2" "\<lparr>param_groups = [1/20, 3/10, 9/10]\<rparr>"]
  by (simp add: clip_lr_def clip_group_def)

subsection \<open>Rounding to float32\<close>

















subsection \<open>The cyclic schedule\<close>

lemma cycle_length_pos:
  assumes "0 < n_iters" "0 < n"
  shows "\<exists>T. cycle_length n_iters n = Inr T \<and> 0 < T"
proof -
  have "0 < real_of_int n_iters / real_of_int n" using assms by simp
  then have "0 < \<lceil>real_of_int n_iters / real_of_int n\<rceil>" by linarith
  then show ?thesis using assms by (simp add: cycle_length_def)
qed

lemma lr_lambda_total:
  assumes "T \<noteq> 0"
  shows "\<exists>m. lr_lambda c T i = Inr m"
proof -
  have "lr_lambda c T i = Inr (0.5 * (c (pi * real_of_int (i mod T) / real_of_int T) + 1))"
    unfolding lr_lambda_def using assms by (rule if_not_P)
  then show ?thesis by (rule exI)
qed






subsection \<open>The ensemble prediction\<close>

lemma has_shape_nth: "has_shape b n t \<Longrightarrow> i < b \<Longrightarrow> length (t ! i) = n"
  by (simp add: has_shape_def list_all_length)

lemma has_shape_lengths: "has_shape b n t \<Longrightarrow> map length t = replicate b n"
  by (auto simp: has_shape_def list_all_length intro!: nth_equalityI)

lemma has_shape_zeros: "has_shape b n (zeros b n)"
  by (simp add: has_shape_def zeros_def list_all_length)

lemma has_shape_tdiv: "has_shape b n t \<Longrightarrow> has_shape b n (tdiv t k)"
  by (simp add: has_shape_def tdiv_def list_all_length)

lemma tdiv_nth: "has_shape b n t \<Longrightarrow> i < b \<Longrightarrow> j < n \<Longrightarrow> tdiv t k ! i ! j = t ! i ! j / real k"
  by (simp add: has_shape_def tdiv_def list_all_length)

lemma tadd_shape:
  assumes "has_shape b n x" "has_shape b n y"
  shows "\<exists>z. tadd x y = Inr z \<and> has_shape b n z
           \<and> (\<forall>i < b. \<forall>j < n. z ! i ! j = x ! i ! j + y ! i ! j)"
proof -
  have eq: "map length x = map length y"
    using assms by (simp add: has_shape_lengths)
  let ?z = "map2 (map2 (+)) x y"
  have run: "tadd x y = Inr ?z" using eq by (simp add: tadd_def)
  have sh: "has_shape b n ?z"
    using assms by (simp add: has_shape_def list_all_length)
  have el: "\<forall>i < b. \<forall>j < n. ?z ! i ! j = x ! i ! j + y ! i ! j"
    using assms by (simp add: has_shape_def list_all_length)
  show ?thesis using run sh el by blast
qed

lemma accumulate_shape:
  assumes "\<forall>est \<in> set ests. has_shape b n (est X)" "has_shape b n acc"
  shows "\<exists>z. fold (\<lambda>est acc. case acc of Inl e \<Rightarrow> Inl e
                               | Inr output \<Rightarrow> tadd output (tdiv (est X) k)) ests (Inr acc) = Inr z
           \<and> has_shape b n z
           \<and> (\<forall>i < b. \<forall>j < n. z ! i ! j
                 = acc ! i ! j + sum_list (map (\<lambda>est. est X ! i ! j / real k) ests))"
  using assms
proof (induction ests arbitrary: acc)
  case Nil
  then show ?case by simp
next
  case (Cons est ests)
  have s1: "has_shape b n (tdiv (est X) k)"
    using Cons.prems(1) by (simp add: has_shape_tdiv)
  obtain y where y: "tadd acc (tdiv (est X) k) = Inr y" "has_shape b n y"
    "\<forall>i < b. \<forall>j < n. y ! i ! j = acc ! i ! j + tdiv (est X) k ! i ! j"
    using tadd_shape [OF Cons.prems(2) s1] by blast
  have rest: "\<forall>e \<in> set ests. has_shape b n (e X)" using Cons.prems(1) by simp
  obtain z where z: "fold (\<lambda>est acc. case acc of Inl e \<Rightarrow> Inl e
                               | Inr output \<Rightarrow> tadd output (tdiv (est X) k)) ests (Inr y) = Inr z"
    "has_shape b n z"
    "\<forall>i < b. \<forall>j < n. z ! i ! j = y ! i ! j + sum_list (map (\<lambda>est. est X ! i ! j / real k) ests)"
    using Cons.IH [OF rest y(2)] by blast
  have el: "\<forall>i < b. \<forall>j < n. z ! i ! j
      = acc ! i ! j + sum_list (map (\<lambda>est. est X ! i ! j / real k) (est # ests))"
  proof (intro allI impI)
    fix i j assume ij: "i < b" "j < n"
    have se: "has_shape b n (est X)" using Cons.prems(1) by simp
    have "est X ! i ! j / real k = tdiv (est X) k ! i ! j"
      using tdiv_nth [OF se ij] by simp
    then show "z ! i ! j = acc ! i ! j + sum_list (map (\<lambda>est. est X ! i ! j / real k) (est # ests))"
      using z(3) y(3) ij by simp
  qed
  show ?case using y(1) z(1) z(2) el by simp
qed

lemma sum_list_div: "sum_list (map (\<lambda>x. f x / (c::real)) xs) = sum_list (map f xs) / c"
  by (induction xs) (simp_all add: add_divide_distrib)

lemma forward_base_mean:
  assumes "\<forall>est \<in> set ests. has_shape (length X) n (est X)"
  shows "forward_base (Some n) ests X
           = Inr (mean_of_outputs (length X) n (map (\<lambda>est. est X) ests))"
proof -
  let ?b = "length X"
  obtain z where z: "forward_base (Some n) ests X = Inr z" "has_shape ?b n z"
    "\<forall>i < ?b. \<forall>j < n. z ! i ! j
        = zeros ?b n ! i ! j + sum_list (map (\<lambda>est. est X ! i ! j / real (length ests)) ests)"
    using accumulate_shape [OF assms has_shape_zeros, of "length ests"]
    unfolding forward_base_def option.case by blast
  let ?m = "mean_of_outputs ?b n (map (\<lambda>est. est X) ests)"
  have len: "length z = length ?m" using z(2) by (simp add: has_shape_def mean_of_outputs_def)
  have rows: "\<And>i. i < length z \<Longrightarrow> z ! i = ?m ! i"
  proof -
    fix i assume "i < length z"
    then have i: "i < ?b" using z(2) by (simp add: has_shape_def)
    have l1: "length (z ! i) = n" using z(2) i by (rule has_shape_nth)
    have l2: "length (?m ! i) = n" using i by (simp add: mean_of_outputs_def)
    show "z ! i = ?m ! i"
    proof (rule nth_equalityI)
      show "length (z ! i) = length (?m ! i)" using l1 l2 by simp
    next
      fix j assume "j < length (z ! i)"
      then have j: "j < n" using l1 by simp
      have "z ! i ! j = sum_list (map (\<lambda>est. est X ! i ! j / real (length ests)) ests)"
        using z(3) i j by (simp add: zeros_def)
      also have "\<dots> = sum_list (map (\<lambda>est. est X ! i ! j) ests) / real (length ests)"
        by (rule sum_list_div)
      also have "\<dots> = ?m ! i ! j"
        using i j by (simp add: mean_of_outputs_def comp_def)
      finally show "z ! i ! j = ?m ! i ! j" .
    qed
  qed
  have "z = ?m" using len rows by (rule nth_equalityI)
  then show ?thesis using z(1) by simp
qed

text \<open>
  C5: for a non-empty collection whose snapshots all return \<open>batch_size \<times> n_outputs\<close>
  outputs on the batch, the classifier's \<^verbatim>\<open>forward\<close> returns the row-wise softmax,
  applied once, of the elementwise arithmetic mean of the snapshots' raw outputs. (The
  collection is filled by \<^verbatim>\<open>fit\<close> only, which has set \<^verbatim>\<open>n_outputs\<close> by then.)
\<close>

theorem classifier_forward_softmax_of_mean:
  assumes "ests \<noteq> []"
    and "\<forall>est \<in> set ests. has_shape (length X) n_outputs (est X)"
  shows "classifier_forward (Some n_outputs) ests X
           = Inr (softmax (mean_of_outputs (length X) n_outputs (map (\<lambda>est. est X) ests)))"
  using forward_base_mean [OF assms(2)] by (simp add: classifier_forward_def)

theorem classifier_forward_softmax_of_mean_witness:
  "classifier_forward (Some 2) [\<lambda>X. [[0, 0]], \<lambda>X. [[2, 0]]] [()]
     = Inr [[exp 1 / (exp 1 + 1), 1 / (exp 1 + 1)]]"
  using classifier_forward_softmax_of_mean [of "[\<lambda>X. [[0, 0]], \<lambda>X. [[2, 0]]]" "[()]" 2]
  by (simp add: has_shape_def mean_of_outputs_def softmax_def softmax_row_def upt_rec)

text \<open>
  The order of the two operations matters: for the raw outputs \<open>(0, 0)\<close> and
  \<open>(ln 9, 0)\<close> the softmax of the mean is \<open>(3/4, 1/4)\<close>, and the mean of the softmaxes
  is \<open>(7/10, 3/10)\<close>.
\<close>

lemma ln_nine: "ln (9::real) = 2 * ln 3"
  using ln_realpow [of "3::real" 2] by simp

lemma exp_ln_nine_half: "exp (ln (9::real) / 2) = 3"
  by (simp add: ln_nine)

lemma softmax_of_mean_is_not_mean_of_softmax:
  "classifier_forward (Some 2) [\<lambda>X. [[0, 0]], \<lambda>X. [[ln 9, 0]]] [()] = Inr [[3 / 4, 1 / 4]]
   \<and> mean_of_outputs 1 2 (map softmax [[[0, 0]], [[ln 9, 0]]]) = [[7 / 10, 3 / 10]]"
proof
  have sh: "\<forall>est \<in> set [\<lambda>X. [[0, 0]], \<lambda>X. [[ln 9, 0::real]]]. has_shape (length [()]) 2 (est [()])"
    by (simp add: has_shape_def)
  show "classifier_forward (Some 2) [\<lambda>X. [[0, 0]], \<lambda>X. [[ln 9, 0]]] [()] = Inr [[3 / 4, 1 / 4]]"
    using forward_base_mean [OF sh]
    by (simp add: classifier_forward_def mean_of_outputs_def softmax_def softmax_row_def upt_rec
        exp_ln_nine_half)
  show "mean_of_outputs 1 2 (map softmax [[[0, 0]], [[ln 9, 0]]]) = [[7 / 10, 3 / 10]]"
    by (simp add: mean_of_outputs_def softmax_def softmax_row_def upt_rec)
qed

lemma softmax_row_zeros: "softmax_row (replicate n 0) = replicate n (1 / real n)"
  by (simp add: softmax_row_def map_replicate_const sum_list_replicate)

text \<open>
  C10, as the code has it: \<^verbatim>\<open>_forward\<close> has no guard for an empty collection. While
  \<^verbatim>\<open>fit\<close> has never been called, \<^verbatim>\<open>n_outputs\<close> does not exist and the predictor fails with
  \<^verbatim>\<open>AttributeError\<close>, whatever the collection holds. Once \<^verbatim>\<open>n_outputs\<close> is set, the loop
  over an empty collection does not run and nothing is raised: the regressor returns the
  all-zero \<open>batch_size \<times> n_outputs\<close> tensor and the classifier the uniform distribution in
  every row.
\<close>

theorem forward_empty_collection:
  "regressor_forward None ests X = Inl AttributeError
   \<and> classifier_forward None ests X = Inl AttributeError
   \<and> regressor_forward (Some n_outputs) [] X = Inr (zeros (length X) n_outputs)
   \<and> classifier_forward (Some n_outputs) [] X
       = Inr (replicate (length X) (replicate n_outputs (1 / real n_outputs)))"
  by (simp add: regressor_forward_def classifier_forward_def forward_base_def softmax_def
      zeros_def softmax_row_zeros)

text \<open>
  A call of \<^verbatim>\<open>fit\<close> with \<^verbatim>\<open>epochs=0\<close> on a new ensemble is rejected, after it has set
  \<^verbatim>\<open>n_outputs\<close> (to 2 here) and before any snapshot exists. On the ensemble it leaves
  behind, with its empty collection, the predictor returns a prediction instead of
  failing.
\<close>

theorem forward_empty_collection_counterexample:
  "classifier_fit scenario_correct scenario_env 3 [] (scenario_args\<lparr>epochs := 0\<rparr>)
     = Inl (ValueError ''epochs should be strictly positive'')
   \<and> regressor_forward (n_outputs_after_fit 2 None) [] [()] = Inr [[0, 0]]
   \<and> classifier_forward (n_outputs_after_fit 2 None) [] [()] = Inr [[1/2, 1/2]]"
  by (simp add: regressor_forward_def classifier_forward_def forward_base_def softmax_def
      zeros_def softmax_row_def numeral_2_eq_2 n_outputs_after_fit_def classifier_fit_def
      fit_def fit_epochs_def fit_init_def validate_parameters_def scenario_args_def)

subsection \<open>Order of the snapshots\<close>

lemma tadd_lengths: "tadd x y = Inr z \<Longrightarrow> map length z = map length x \<and> map length y = map length x"
proof -
  assume a: "tadd x y = Inr z"
  then have eq: "map length x = map length y" by (simp add: tadd_def split: if_splits)
  then have lxy: "length x = length y" using map_eq_imp_length_eq by blast
  have z: "z = map2 (map2 (+)) x y" using a eq by (simp add: tadd_def)
  have "map length z = map length x"
  proof (rule nth_equalityI)
    show "length (map length z) = length (map length x)" using z lxy by simp
  next
    fix i assume "i < length (map length z)"
    then have i: "i < length x" "i < length y" using z lxy by simp_all
    have "map length x ! i = map length y ! i" using eq by simp
    then have "length (x ! i) = length (y ! i)" using i by simp
    then show "map length z ! i = map length x ! i" using z i by simp
  qed
  then show ?thesis using eq by simp
qed

lemma tadd_swap:
  assumes "map length a = map length x" "map length b = map length x"
  shows "map2 (map2 (+)) (map2 (map2 (+)) x a) b = map2 (map2 (+)) (map2 (map2 (+)) x b) (a::tensor)"
proof -
  have la: "length a = length x" and lb: "length b = length x"
    using assms map_eq_imp_length_eq by blast+
  show ?thesis
  proof (rule nth_equalityI)
    show "length (map2 (map2 (+)) (map2 (map2 (+)) x a) b)
            = length (map2 (map2 (+)) (map2 (map2 (+)) x b) a)"
      using la lb by simp
  next
    fix i assume "i < length (map2 (map2 (+)) (map2 (map2 (+)) x a) b)"
    then have i: "i < length x" using la lb by simp
    have "map length a ! i = map length x ! i" "map length b ! i = map length x ! i"
      using assms by simp_all
    then have ra: "length (a ! i) = length (x ! i)" and rb: "length (b ! i) = length (x ! i)"
      using i la lb by simp_all
    have "map2 (+) (map2 (+) (x ! i) (a ! i)) (b ! i) = map2 (+) (map2 (+) (x ! i) (b ! i)) (a ! i)"
      using ra rb by (intro nth_equalityI) simp_all
    then show "map2 (map2 (+)) (map2 (map2 (+)) x a) b ! i
                 = map2 (map2 (+)) (map2 (map2 (+)) x b) a ! i"
      using i la lb by simp
  qed
qed

lemma step_commute:
  "(case (case acc of Inl e \<Rightarrow> Inl e | Inr output \<Rightarrow> tadd output a) of
      Inl e \<Rightarrow> Inl e | Inr output \<Rightarrow> tadd output b)
   = (case (case acc of Inl e \<Rightarrow> Inl e | Inr output \<Rightarrow> tadd output b) of
      Inl e \<Rightarrow> Inl e | Inr output \<Rightarrow> tadd output a)"
proof (cases acc)
  case (Inl e)
  then show ?thesis by simp
next
  case (Inr x)
  show ?thesis
  proof (cases "map length x = map length a \<and> map length x = map length b")
    case True
    then have sa: "map length a = map length x" and sb: "map length b = map length x" by auto
    have xa: "tadd x a = Inr (map2 (map2 (+)) x a)" using sa by (simp add: tadd_def)
    have xb: "tadd x b = Inr (map2 (map2 (+)) x b)" using sb by (simp add: tadd_def)
    have la: "map length (map2 (map2 (+)) x a) = map length x"
      using tadd_lengths [OF xa] by simp
    have lb: "map length (map2 (map2 (+)) x b) = map length x"
      using tadd_lengths [OF xb] by simp
    have "tadd (map2 (map2 (+)) x a) b = Inr (map2 (map2 (+)) (map2 (map2 (+)) x a) b)"
      using la sb by (simp add: tadd_def)
    moreover have "tadd (map2 (map2 (+)) x b) a = Inr (map2 (map2 (+)) (map2 (map2 (+)) x b) a)"
      using lb sa by (simp add: tadd_def)
    ultimately show ?thesis using Inr xa xb tadd_swap [OF sa sb] by simp
  next
    case False
    have l: "(case tadd x a of Inl e \<Rightarrow> Inl e | Inr output \<Rightarrow> tadd output b) = Inl ShapeError"
    proof (cases "tadd x a")
      case (Inl e)
      then show ?thesis by (simp add: tadd_def split: if_splits)
    next
      case (Inr y)
      then have "map length y = map length x" "map length a = map length x"
        using tadd_lengths by blast+
      then have "map length y \<noteq> map length b" using False by auto
      then show ?thesis using Inr by (simp add: tadd_def)
    qed
    have r: "(case tadd x b of Inl e \<Rightarrow> Inl e | Inr output \<Rightarrow> tadd output a) = Inl ShapeError"
    proof (cases "tadd x b")
      case (Inl e)
      then show ?thesis by (simp add: tadd_def split: if_splits)
    next
      case (Inr y)
      then have "map length y = map length x" "map length b = map length x"
        using tadd_lengths by blast+
      then have "map length y \<noteq> map length a" using False by auto
      then show ?thesis using Inr by (simp add: tadd_def)
    qed
    show ?thesis using Inr l r by simp
  qed
qed

lemma forward_base_permutation:
  assumes "mset ests = mset ests'"
  shows "forward_base n ests X = forward_base n ests' X"
proof (cases n)
  case None
  then show ?thesis by (simp add: forward_base_def)
next
  case (Some k)
  show ?thesis
  proof -
  let ?f = "\<lambda>est acc. case acc of Inl e \<Rightarrow> Inl e
                       | Inr output \<Rightarrow> tadd output (tdiv (est X) (length ests))"
  have len: "length ests' = length ests"
    using assms by (metis size_mset)
  have comm: "\<And>x y. ?f x \<circ> ?f y = ?f y \<circ> ?f x"
    by (rule ext) (simp add: step_commute)
  have feq: "fold ?f ests = fold ?f ests'"
    using comm assms by (rule fold_multiset_equiv)
    show ?thesis unfolding forward_base_def Some option.case len by (rule fun_cong [OF feq])
  qed
qed

text \<open>
  C9: the prediction of the regressor and of the classifier, error results included, is
  the same for any two orders of the same snapshots (equal as multisets), over exact
  arithmetic.
\<close>

theorem forward_order_invariant:
  assumes "mset ests = mset ests'"
  shows "regressor_forward n_outputs ests X = regressor_forward n_outputs ests' X
       \<and> classifier_forward n_outputs ests X = classifier_forward n_outputs ests' X"
  using forward_base_permutation [OF assms]
  by (simp add: regressor_forward_def classifier_forward_def)

theorem forward_order_invariant_witness:
  "regressor_forward (Some 2) [\<lambda>X. [[0, 0]], \<lambda>X. [[2, 0]], \<lambda>X. [[1, 6]]] [()]
     = regressor_forward (Some 2) [\<lambda>X. [[1, 6]], \<lambda>X. [[0, 0]], \<lambda>X. [[2, 0]]] [()]
   \<and> regressor_forward (Some 2) [\<lambda>X. [[1, 6]], \<lambda>X. [[0, 0]], \<lambda>X. [[2, 0]]] [()]
     = Inr [[1, 2]]"
  using forward_order_invariant [of "[\<lambda>X. [[0, 0]], \<lambda>X. [[2, 0]], \<lambda>X. [[1, 6::real]]]"
      "[\<lambda>X. [[1, 6]], \<lambda>X. [[0, 0]], \<lambda>X. [[2, 0]]]" "Some 2" "[()]"]
  by (simp add: regressor_forward_def forward_base_def zeros_def tadd_def tdiv_def numeral_2_eq_2)

subsection \<open>The training loop\<close>

lemma train_batch_fields:
  assumes "train_batch step clip b s = Inr s'"
  shows "counter s' = counter s + 1 \<and> estimators s' = estimators s \<and> saved s' = saved s
           \<and> best s' = best s \<and> period (scheduler s') = period (scheduler s)"
  using assms
  by (auto simp: train_batch_def scheduler_step_def Let_def split: sum.splits prod.splits)

lemma train_batches_fields:
  "train_batches step clip bs s = Inr s' \<Longrightarrow>
     counter s' = counter s + int (length bs) \<and> estimators s' = estimators s
       \<and> saved s' = saved s \<and> best s' = best s
       \<and> period (scheduler s') = period (scheduler s)"
proof (induction bs arbitrary: s)
  case Nil
  then show ?case by simp
next
  case (Cons b bs)
  from Cons.prems obtain s1 where s1: "train_batch step clip b s = Inr s1"
    "train_batches step clip bs s1 = Inr s'"
    by (auto split: sum.splits)
  show ?case using train_batch_fields [OF s1(1)] Cons.IH [OF s1(2)] by simp
qed

lemma validate_lr_clip_pair:
  "validate_lr_clip clip = Inr u \<Longrightarrow> \<exists>lo hi. clip = ClipSeq [lo, hi] \<and> lo < hi"
proof (cases clip)
  case (ClipSeq xs)
  assume "validate_lr_clip clip = Inr u"
  then have l: "length xs = 2" and lt: "xs ! 0 < xs ! 1"
    using ClipSeq by (auto split: if_splits)
  from l obtain lo hi where "xs = [lo, hi]"
    by (cases xs; cases "tl xs") auto
  then show ?thesis using ClipSeq lt by simp
qed simp_all

lemma clip_lr_total:
  assumes "\<not> truthy clip \<or> (\<exists>lo hi. clip = ClipSeq [lo, hi])"
  shows "\<exists>opt'. clip_lr opt clip = Inr opt'"
  using assms by (auto simp: clip_lr_def)

lemma train_batch_total:
  assumes "\<not> truthy clip \<or> (\<exists>lo hi. clip = ClipSeq [lo, hi])" "period (scheduler s) \<noteq> 0"
  shows "\<exists>s'. train_batch step clip b s = Inr s'"
proof -
  obtain o1 where o1: "clip_lr (optimizer s) clip = Inr o1"
    using clip_lr_total [OF assms(1)] by blast
  show ?thesis using o1 assms(2)
    by (simp add: train_batch_def scheduler_step_def lr_lambda_def Let_def)
qed

lemma train_batches_total:
  assumes "\<not> truthy clip \<or> (\<exists>lo hi. clip = ClipSeq [lo, hi])"
  shows "period (scheduler s) \<noteq> 0 \<Longrightarrow> \<exists>s'. train_batches step clip bs s = Inr s'"
proof (induction bs arbitrary: s)
  case Nil
  then show ?case by simp
next
  case (Cons b bs)
  obtain s1 where s1: "train_batch step clip b s = Inr s1"
    using train_batch_total [OF assms Cons.prems, where step = step and b = b] by blast
  have "period (scheduler s1) \<noteq> 0"
    using train_batch_fields [OF s1] Cons.prems by simp
  then show ?case using Cons.IH s1 by simp
qed

lemma end_of_epoch_fields:
  assumes "end_of_epoch score better store ipe ldr save s = Inr s'"
  shows "counter s' = counter s \<and> estimator s' = estimator s \<and> scheduler s' = scheduler s
     \<and> estimators s' = (if counter s mod ipe = 0 then estimators s @ [estimator s]
                         else estimators s)"
  using assms
  by (auto simp: end_of_epoch_def validation_gate_def Let_def
      split: if_splits option.splits sum.splits)

lemma end_of_epoch_total:
  assumes "ipe \<noteq> 0"
    and "\<forall>l es. ldr = Some l \<longrightarrow> batches l \<noteq> [] \<longrightarrow> (\<exists>v. score es l = Inr v)"
  shows "\<exists>s'. end_of_epoch score better store ipe ldr save s = Inr s'"
proof (cases ldr)
  case None
  then show ?thesis using assms(1) by (simp add: end_of_epoch_def Let_def)
next
  case (Some l)
  show ?thesis
  proof (cases "batches l \<noteq> [] \<and> counter s mod ipe = 0")
    case True
    then obtain v where "score (estimators s @ [estimator s]) l = Inr v"
      using assms(2) Some by blast
    then show ?thesis using assms(1) Some True by (simp add: end_of_epoch_def Let_def)
  next
    case False
    then show ?thesis using assms(1) Some by (auto simp: end_of_epoch_def Let_def)
  qed
qed

lemma end_of_epoch_gate:
  assumes "end_of_epoch score better store ipe ldr save s = Inr s'"
  shows "(best s' = best s \<and> saved s' = saved s)
     \<or> (\<exists>l v. ldr = Some l \<and> batches l \<noteq> [] \<and> counter s mod ipe = 0
            \<and> score (estimators s') l = Inr v \<and> better v (best s) \<and> best s' = store v
            \<and> saved s' = (if save then saved s @ [estimators s'] else saved s))"
  using assms
  by (auto simp: end_of_epoch_def validation_gate_def Let_def
      split: if_splits option.splits sum.splits)

lemma end_of_epoch_no_loader:
  assumes "end_of_epoch score better store ipe ldr save s = Inr s'" "\<not> loader_truthy ldr"
  shows "best s' = best s \<and> saved s' = saved s"
  using assms
  by (cases ldr) (auto simp: end_of_epoch_def Let_def split: if_splits)

lemma epoch_step_fields:
  assumes "epoch_step score better store step ipe args s = Inr s'"
  shows "counter s' = counter s + int (length (train_loader args))
     \<and> period (scheduler s') = period (scheduler s)
     \<and> estimators s' = (if counter s' mod ipe = 0 then estimators s @ [estimator s']
                         else estimators s)"
proof -
  from assms obtain s1 where s1: "train_batches step (lr_clip args) (train_loader args) s = Inr s1"
    "end_of_epoch score better store ipe (test_loader args) (save_model args) s1 = Inr s'"
    by (auto simp: epoch_step_def split: sum.splits)
  show ?thesis using train_batches_fields [OF s1(1)] end_of_epoch_fields [OF s1(2)] by simp
qed

lemma epoch_step_gate:
  assumes "epoch_step score better store step ipe args s = Inr s'"
  shows "(best s' = best s \<and> saved s' = saved s)
     \<or> (\<exists>l v. test_loader args = Some l \<and> batches l \<noteq> [] \<and> counter s' mod ipe = 0
            \<and> score (estimators s') l = Inr v \<and> better v (best s) \<and> best s' = store v
            \<and> saved s' = (if save_model args then saved s @ [estimators s'] else saved s))"
proof -
  from assms obtain s1 where s1: "train_batches step (lr_clip args) (train_loader args) s = Inr s1"
    "end_of_epoch score better store ipe (test_loader args) (save_model args) s1 = Inr s'"
    by (auto simp: epoch_step_def split: sum.splits)
  have b: "best s1 = best s" "saved s1 = saved s" "counter s1 = counter s'"
    using train_batches_fields [OF s1(1)] end_of_epoch_fields [OF s1(2)] by simp_all
  show ?thesis using end_of_epoch_gate [OF s1(2)] by (simp only: b)
qed

lemma epoch_step_no_loader:
  assumes "epoch_step score better store step ipe args s = Inr s'"
    "\<not> loader_truthy (test_loader args)"
  shows "best s' = best s \<and> saved s' = saved s"
proof -
  from assms obtain s1 where s1: "train_batches step (lr_clip args) (train_loader args) s = Inr s1"
    "end_of_epoch score better store ipe (test_loader args) (save_model args) s1 = Inr s'"
    by (auto simp: epoch_step_def split: sum.splits)
  show ?thesis
    using train_batches_fields [OF s1(1)] end_of_epoch_no_loader [OF s1(2) assms(2)] by simp
qed

lemma epoch_step_total:
  assumes "\<not> truthy (lr_clip args) \<or> (\<exists>lo hi. lr_clip args = ClipSeq [lo, hi])"
    and "period (scheduler s) \<noteq> 0" and "ipe \<noteq> 0"
    and "\<forall>l es. test_loader args = Some l \<longrightarrow> batches l \<noteq> [] \<longrightarrow> (\<exists>v. score es l = Inr v)"
  shows "\<exists>s'. epoch_step score better store step ipe args s = Inr s'"
proof -
  obtain s1 where s1: "train_batches step (lr_clip args) (train_loader args) s = Inr s1"
    using train_batches_total [OF assms(1,2)] by blast
  obtain s' where "end_of_epoch score better store ipe (test_loader args) (save_model args) s1 = Inr s'"
    using end_of_epoch_total [OF assms(3,4)] by blast
  then show ?thesis using s1 by (simp add: epoch_step_def)
qed

lemma validate_ok_facts:
  assumes "validate_parameters n lr0 clip wd ep li = Inr u"
  shows "0 < lr0 \<and> 0 \<le> wd \<and> 0 < ep \<and> 0 < li \<and> n \<noteq> 0 \<and> ep mod n = 0
     \<and> (\<not> truthy clip \<or> (\<exists>lo hi. clip = ClipSeq [lo, hi] \<and> lo < hi))"
proof -
  have basic: "0 < lr0 \<and> 0 \<le> wd \<and> 0 < ep \<and> 0 < li \<and> n \<noteq> 0 \<and> ep mod n = 0"
    using assms by (auto simp: validate_parameters_def split: if_splits sum.splits)
  have "truthy clip \<longrightarrow> (\<exists>u. validate_lr_clip clip = Inr u)"
    using assms by (auto simp: validate_parameters_def split: if_splits sum.splits)
  then have "\<not> truthy clip \<or> (\<exists>lo hi. clip = ClipSeq [lo, hi] \<and> lo < hi)"
    using validate_lr_clip_pair by blast
  then show ?thesis using basic by simp
qed

lemma scheduler_step_period:
  "scheduler_step sch opt = Inr (sch', opt') \<Longrightarrow> period sch' = period sch"
  by (auto simp: scheduler_step_def Let_def split: sum.splits)

lemma fit_init_fields:
  assumes "fit_init best0 env n ests0 args = Inr (ipe, s0)"
  shows "validate_parameters n (init_lr args) (lr_clip args) (weight_decay args) (epochs args)
           (log_interval args) = Inr ()
     \<and> ipe = epochs args * int (length (train_loader args)) div n
     \<and> counter s0 = 0 \<and> estimators s0 = ests0 \<and> saved s0 = [] \<and> best s0 = best0"
  using assms
  by (auto simp: fit_init_def n_iters_per_estimator_def Let_def
      split: sum.splits prod.splits if_splits)

lemma fit_init_total:
  assumes "validate_parameters n (init_lr args) (lr_clip args) (weight_decay args) (epochs args)
           (log_interval args) = Inr ()"
    and "0 < n" and "train_loader args \<noteq> []"
  shows "\<exists>s0. fit_init best0 env n ests0 args
            = Inr (epochs args * int (length (train_loader args)) div n, s0)
          \<and> period (scheduler s0) \<noteq> 0"
proof -
  let ?n_iters = "epochs args * int (length (train_loader args))"
  have ep: "0 < epochs args" using validate_ok_facts [OF assms(1)] by simp
  have "0 < int (length (train_loader args))" using assms(3) by simp
  then have it: "0 < ?n_iters" using ep by simp
  obtain T where T: "cycle_length ?n_iters n = Inr T" "0 < T"
    using cycle_length_pos [OF it assms(2)] by blast
  have "T \<noteq> 0" using T(2) by simp
  then obtain m where m: "lr_lambda (torch_cos env) T 0 = Inr m"
    using lr_lambda_total by blast
  show ?thesis using assms(1,2) T m
    by (simp add: fit_init_def set_scheduler_def scheduler_step_def n_iters_per_estimator_def
        Let_def)
qed

lemma run_epochs_Suc:
  "run_epochs f (Suc k) s0 = Inr s' \<Longrightarrow> \<exists>s. run_epochs f k s0 = Inr s \<and> f s = Inr s'"
  by (auto split: sum.splits)

lemma run_epochs_le:
  "run_epochs f k s0 = Inr s \<Longrightarrow> j \<le> k \<Longrightarrow> \<exists>sj. run_epochs f j s0 = Inr sj"
proof (induction k arbitrary: s)
  case 0
  then show ?case by simp
next
  case (Suc k)
  show ?case
  proof (cases "j = Suc k")
    case True
    then show ?thesis using Suc.prems(1) by blast
  next
    case False
    then have "j \<le> k" using Suc.prems(2) by simp
    moreover obtain s1 where "run_epochs f k s0 = Inr s1"
      using run_epochs_Suc [OF Suc.prems(1)] by blast
    ultimately show ?thesis using Suc.IH by blast
  qed
qed

lemma boundary_mod:
  assumes "0 < b" "0 < m"
  shows "(int (Suc k) * int b) mod (int m * int b) = 0 \<longleftrightarrow> Suc k mod m = 0"
proof -
  have "(int (Suc k) * int b) mod (int m * int b) = int (Suc k mod m) * int b"
    by (simp only: mod_mult_mult2 zmod_int)
  then show ?thesis using assms by simp
qed

lemma run_epochs_snapshots:
  fixes m b :: nat and better and store and step
  assumes clip: "\<not> truthy (lr_clip args) \<or> (\<exists>lo hi. lr_clip args = ClipSeq [lo, hi])"
    and per: "period (scheduler s0) \<noteq> 0"
    and score: "\<forall>l es. test_loader args = Some l \<longrightarrow> batches l \<noteq> []
                  \<longrightarrow> (\<exists>v. score es l = Inr v)"
    and b: "b = length (train_loader args)" "0 < b"
    and m: "0 < m"
    and c0: "counter s0 = 0"
  defines "f \<equiv> epoch_step score better store step (int m * int b) args"
  shows "\<exists>s. run_epochs f k s0 = Inr s
     \<and> counter s = int k * int b
     \<and> period (scheduler s) = period (scheduler s0)
     \<and> length (estimators s) = length (estimators s0) + k div m
     \<and> take (length (estimators s0)) (estimators s) = estimators s0
     \<and> (\<forall>i < k div m. \<exists>si. run_epochs f (Suc i * m) s0 = Inr si
            \<and> estimators s ! (length (estimators s0) + i) = estimator si)"
proof (induction k)
  case 0
  then show ?case using c0 by simp
next
  case (Suc k)
  then obtain s where s: "run_epochs f k s0 = Inr s"
    "counter s = int k * int b"
    "period (scheduler s) = period (scheduler s0)"
    "length (estimators s) = length (estimators s0) + k div m"
    "take (length (estimators s0)) (estimators s) = estimators s0"
    "\<forall>i < k div m. \<exists>si. run_epochs f (Suc i * m) s0 = Inr si
            \<and> estimators s ! (length (estimators s0) + i) = estimator si"
    by blast
  have ipe: "int m * int b \<noteq> 0" using b(2) m by simp
  have pk: "period (scheduler s) \<noteq> 0" using s(3) per by simp
  obtain s' where s': "f s = Inr s'"
    using epoch_step_total [OF clip pk ipe score] unfolding f_def by blast
  have run: "run_epochs f (Suc k) s0 = Inr s'" using s(1) s' by simp
  have fields: "counter s' = counter s + int b"
    "period (scheduler s') = period (scheduler s)"
    "estimators s' = (if counter s' mod (int m * int b) = 0
                      then estimators s @ [estimator s'] else estimators s)"
    using epoch_step_fields [OF s' [unfolded f_def]] b(1) by simp_all
  have cnt: "counter s' = int (Suc k) * int b"
    using fields(1) s(2) by (simp add: algebra_simps)
  have bnd: "counter s' mod (int m * int b) = 0 \<longleftrightarrow> Suc k mod m = 0"
    unfolding cnt using b(2) m by (rule boundary_mod)
  show ?case
  proof (cases "Suc k mod m = 0")
    case True
    have ests: "estimators s' = estimators s @ [estimator s']"
      using fields(3) bnd True by simp
    have dv: "Suc k div m = Suc (k div m)" using True by (simp add: div_Suc)
    have whole: "Suc (k div m) * m = Suc k"
      using True dv by (metis mult.commute mult_div_mod_eq add.right_neutral)
    have len: "length (estimators s') = length (estimators s0) + Suc k div m"
      using ests s(4) dv by simp
    have tk: "take (length (estimators s0)) (estimators s') = estimators s0"
      using ests s(4,5) by simp
    have nth: "\<forall>i < Suc k div m. \<exists>si. run_epochs f (Suc i * m) s0 = Inr si
            \<and> estimators s' ! (length (estimators s0) + i) = estimator si"
    proof (intro allI impI)
      fix i assume "i < Suc k div m"
      then consider "i < k div m" | "i = k div m" using dv by linarith
      then show "\<exists>si. run_epochs f (Suc i * m) s0 = Inr si
            \<and> estimators s' ! (length (estimators s0) + i) = estimator si"
      proof cases
        case 1
        then obtain si where si: "run_epochs f (Suc i * m) s0 = Inr si"
          "estimators s ! (length (estimators s0) + i) = estimator si"
          using s(6) by blast
        have "length (estimators s0) + i < length (estimators s)" using 1 s(4) by simp
        then have "estimators s' ! (length (estimators s0) + i)
                     = estimators s ! (length (estimators s0) + i)"
          using ests by (simp add: nth_append)
        then show ?thesis using si by simp
      next
        case 2
        have "estimators s' ! (length (estimators s0) + i) = estimator s'"
          using ests s(4) 2 by (simp add: nth_append)
        moreover have "run_epochs f (Suc i * m) s0 = Inr s'"
          using run whole 2 by simp
        ultimately show ?thesis by blast
      qed
    qed
    show ?thesis using run cnt fields(2) s(3) len tk nth by simp
  next
    case False
    have ests: "estimators s' = estimators s" using fields(3) bnd False by simp
    have dv: "Suc k div m = k div m" using False by (simp add: div_Suc)
    show ?thesis using run cnt fields(2) s(3,4,5,6) ests dv by simp
  qed
qed

subsection \<open>Snapshots of a full run\<close>

lemma fit_estimators:
  assumes "fit_epochs score better store best0 env n ests0 args (nat (epochs args)) = Inr s"
  shows "\<exists>s'. fit score better store best0 env n ests0 args = Inr s'
           \<and> estimators s' = estimators s"
  using assms by (simp add: fit_def)

lemma fit_snapshots:
  assumes valid: "validate_parameters n (init_lr args) (lr_clip args) (weight_decay args)
                    (epochs args) (log_interval args) = Inr ()"
    and n: "0 < n" and tl: "train_loader args \<noteq> []"
    and score: "\<forall>l es. test_loader args = Some l \<longrightarrow> batches l \<noteq> []
                  \<longrightarrow> (\<exists>v. score es l = Inr v)"
  shows "\<exists>s. fit score better store best0 env n ests0 args = Inr s
     \<and> length (estimators s) = length ests0 + nat n
     \<and> take (length ests0) (estimators s) = ests0
     \<and> (\<forall>i < nat n. \<exists>si.
           fit_epochs score better store best0 env n ests0 args (Suc i * nat (epochs args div n))
             = Inr si
           \<and> estimators s ! (length ests0 + i) = estimator si)"
proof -
  let ?b = "length (train_loader args)"
  let ?q = "epochs args div n"
  let ?m = "nat ?q"
  have facts: "0 < epochs args" "epochs args mod n = 0"
    "\<not> truthy (lr_clip args) \<or> (\<exists>lo hi. lr_clip args = ClipSeq [lo, hi])"
    using validate_ok_facts [OF valid] by auto
  have eq: "epochs args = ?q * n" using facts(2) by (simp add: mod_0_imp_dvd)
  have qpos: "0 < ?q" using facts(1) n eq by (metis zero_less_mult_pos2)
  have m: "0 < ?m" "int ?m = ?q" using qpos by simp_all
  have b: "0 < ?b" using tl by simp
  have "n dvd epochs args" using facts(2) by (simp add: dvd_eq_mod_eq_0)
  then have "?q * int ?b = epochs args * int ?b div n" by (rule dvd_div_mult)
  then have ipe: "epochs args * int ?b div n = int ?m * int ?b"
    using m(2) by simp
  obtain s0 where s0: "fit_init best0 env n ests0 args = Inr (int ?m * int ?b, s0)"
    "period (scheduler s0) \<noteq> 0"
    using fit_init_total [OF valid n tl] ipe by metis
  have f0: "counter s0 = 0" "estimators s0 = ests0"
    using fit_init_fields [OF s0(1)] by simp_all
  let ?f = "epoch_step score better store (train_step env) (int ?m * int ?b) args"
  have pre: "\<And>k. fit_epochs score better store best0 env n ests0 args k = run_epochs ?f k s0"
    using s0(1) by (simp add: fit_epochs_def)
  have k: "nat (epochs args) = ?m * nat n"
    using eq qpos n by (metis nat_mult_distrib less_imp_le)
  then have kd: "nat (epochs args) div ?m = nat n" using m(1) by simp
  obtain s where s: "run_epochs ?f (nat (epochs args)) s0 = Inr s"
    "length (estimators s) = length (estimators s0) + nat (epochs args) div ?m"
    "take (length (estimators s0)) (estimators s) = estimators s0"
    "\<forall>i < nat (epochs args) div ?m. \<exists>si. run_epochs ?f (Suc i * ?m) s0 = Inr si
            \<and> estimators s ! (length (estimators s0) + i) = estimator si"
    using run_epochs_snapshots [OF facts(3) s0(2) score refl b m(1) f0(1),
        of better store "train_step env" "nat (epochs args)"]
    by blast
  obtain s' where s': "fit score better store best0 env n ests0 args = Inr s'"
    "estimators s' = estimators s"
    using fit_estimators s(1) pre by metis
  show ?thesis using s' s(2,3,4) f0(2) kd pre by simp
qed

lemma validation_acc_total: "0 < dataset_len l \<Longrightarrow> \<exists>v. validation_acc nc es l = Inr v"
  by (simp add: validation_acc_def Let_def)

lemma validation_mse_total: "batches l \<noteq> [] \<Longrightarrow> \<exists>v. validation_mse bm es l = Inr v"
  by (simp add: validation_mse_def Let_def)

text \<open>
  C1, as the code has it: for every configuration that \<^verbatim>\<open>_validate_parameters\<close> accepts
  (the epoch count itself is then a multiple of the number of cycles), with a positive
  number of cycles, a non-empty training loader and a validation sweep that does not
  divide by zero, the product \<open>epochs * batches_per_epoch\<close> is divisible by the number of
  cycles, \<^verbatim>\<open>fit\<close> returns, and exactly \<open>n_estimators\<close> snapshots have been appended to the
  collector: the \<open>i\<close>-th of them is the live model at the end of epoch
  \<open>(i + 1) * (epochs div n_estimators)\<close>, the \<open>i\<close>-th cycle boundary.
\<close>

theorem fit_collects_n_snapshots:
  assumes "validate_parameters n (init_lr args) (lr_clip args) (weight_decay args)
             (epochs args) (log_interval args) = Inr ()"
    and "0 < n" and "train_loader args \<noteq> []"
    and "\<forall>l. test_loader args = Some l \<longrightarrow> batches l \<noteq> [] \<longrightarrow> 0 < dataset_len l"
  shows "(epochs args * int (length (train_loader args))) mod n = 0
     \<and> (\<exists>s. classifier_fit n_correct env n ests0 args = Inr s
          \<and> length (estimators s) = length ests0 + nat n
          \<and> take (length ests0) (estimators s) = ests0
          \<and> (\<forall>i < nat n. \<exists>si.
                classifier_fit_epochs n_correct env n ests0 args (Suc i * nat (epochs args div n))
                  = Inr si
                \<and> estimators s ! (length ests0 + i) = estimator si))
     \<and> (\<exists>s. regressor_fit batch_mse env n ests0 args = Inr s
          \<and> length (estimators s) = length ests0 + nat n
          \<and> take (length ests0) (estimators s) = ests0
          \<and> (\<forall>i < nat n. \<exists>si.
                regressor_fit_epochs batch_mse env n ests0 args (Suc i * nat (epochs args div n))
                  = Inr si
                \<and> estimators s ! (length ests0 + i) = estimator si))"
proof -
  have "epochs args mod n = 0" using validate_ok_facts [OF assms(1)] by simp
  then have dvd: "(epochs args * int (length (train_loader args))) mod n = 0" by auto
  have sc: "\<forall>l es. test_loader args = Some l \<longrightarrow> batches l \<noteq> []
                  \<longrightarrow> (\<exists>v. validation_acc n_correct es l = Inr v)"
    using assms(4) validation_acc_total by blast
  have sr: "\<forall>l es. test_loader args = Some l \<longrightarrow> batches l \<noteq> []
                  \<longrightarrow> (\<exists>v. validation_mse batch_mse es l = Inr v)"
    using validation_mse_total by blast
  have c: "\<exists>s. classifier_fit n_correct env n ests0 args = Inr s
          \<and> length (estimators s) = length ests0 + nat n
          \<and> take (length ests0) (estimators s) = ests0
          \<and> (\<forall>i < nat n. \<exists>si.
                classifier_fit_epochs n_correct env n ests0 args (Suc i * nat (epochs args div n))
                  = Inr si
                \<and> estimators s ! (length ests0 + i) = estimator si)"
    unfolding classifier_fit_def classifier_fit_epochs_def
    by (rule fit_snapshots [OF assms(1,2,3) sc])
  have r: "\<exists>s. regressor_fit batch_mse env n ests0 args = Inr s
          \<and> length (estimators s) = length ests0 + nat n
          \<and> take (length ests0) (estimators s) = ests0
          \<and> (\<forall>i < nat n. \<exists>si.
                regressor_fit_epochs batch_mse env n ests0 args (Suc i * nat (epochs args div n))
                  = Inr si
                \<and> estimators s ! (length ests0 + i) = estimator si)"
    unfolding regressor_fit_def regressor_fit_epochs_def
    by (rule fit_snapshots [OF assms(1,2,3) sr])
  show ?thesis using dvd c r by (intro conjI)
qed

theorem fit_collects_n_snapshots_witness:
  "(\<exists>s. classifier_fit scenario_correct scenario_env 3 [] scenario_args = Inr s
      \<and> length (estimators s) = 3)
   \<and> (\<exists>s. regressor_fit scenario_mse scenario_env 3 [] scenario_args = Inr s
      \<and> length (estimators s) = 3)"
proof -
  have v: "validate_parameters 3 (init_lr scenario_args) (lr_clip scenario_args)
             (weight_decay scenario_args) (epochs scenario_args) (log_interval scenario_args)
           = Inr ()"
    by (simp add: validate_parameters_def scenario_args_def)
  have n: "0 < (3::int)" by simp
  have t: "train_loader scenario_args \<noteq> []" by (simp add: scenario_args_def)
  have d: "\<forall>l. test_loader scenario_args = Some l \<longrightarrow> batches l \<noteq> [] \<longrightarrow> 0 < dataset_len l"
    by (simp add: scenario_args_def)
  show ?thesis
    using fit_collects_n_snapshots [OF v n t d, of scenario_correct scenario_env "[]"
        scenario_mse]
    by auto
qed

text \<open>
  Three epochs of two batches with two cycles: the product 6 is divisible by 2, yet
  \<^verbatim>\<open>fit\<close> raises, for the classifier and for the regressor, and no run takes place.
\<close>

theorem fit_collects_n_snapshots_counterexample:
  "(epochs (small_args\<lparr>train_loader := [(), ()], epochs := 3\<rparr>)
      * int (length (train_loader (small_args\<lparr>train_loader := [(), ()], epochs := 3\<rparr>)))) mod 2 = 0
   \<and> classifier_fit scenario_correct scenario_env 2 []
        (small_args\<lparr>train_loader := [(), ()], epochs := 3\<rparr>)
     = Inl (ValueError ''epochs should be a multiple of n_estimators'')
   \<and> regressor_fit scenario_mse scenario_env 2 []
        (small_args\<lparr>train_loader := [(), ()], epochs := 3\<rparr>)
     = Inl (ValueError ''epochs should be a multiple of n_estimators'')"
  by (simp add: classifier_fit_def regressor_fit_def fit_def fit_epochs_def fit_init_def
      validate_parameters_def small_args_def)

subsection \<open>Prefixes of a run\<close>

lemma fit_epochs_0:
  assumes "fit_epochs score better store best0 env n ests0 args 0 = Inr s"
  shows "counter s = 0 \<and> estimators s = ests0 \<and> saved s = [] \<and> best s = best0"
proof -
  from assms obtain ipe where i: "fit_init best0 env n ests0 args = Inr (ipe, s)"
    by (auto simp: fit_epochs_def split: sum.splits)
  show ?thesis using fit_init_fields [OF i] by simp
qed

lemma fit_epochs_Suc:
  assumes "fit_epochs score better store best0 env n ests0 args (Suc k) = Inr s'"
  shows "\<exists>s. fit_epochs score better store best0 env n ests0 args k = Inr s
     \<and> epoch_step score better store (train_step env)
          (epochs args * int (length (train_loader args)) div n) args s = Inr s'"
proof -
  from assms obtain ipe s0 where i: "fit_init best0 env n ests0 args = Inr (ipe, s0)"
    and r: "run_epochs (epoch_step score better store (train_step env) ipe args) (Suc k) s0 = Inr s'"
    by (auto simp: fit_epochs_def split: sum.splits)
  have ipe: "ipe = epochs args * int (length (train_loader args)) div n"
    using fit_init_fields [OF i] by simp
  obtain s where s: "run_epochs (epoch_step score better store (train_step env) ipe args) k s0 = Inr s"
    "epoch_step score better store (train_step env) ipe args s = Inr s'"
    using run_epochs_Suc [OF r] by blast
  have "fit_epochs score better store best0 env n ests0 args k = Inr s"
    using i s(1) by (simp add: fit_epochs_def)
  then show ?thesis using s(2) ipe by simp
qed

lemma fit_epochs_counter:
  "fit_epochs score better store best0 env n ests0 args k = Inr s
     \<Longrightarrow> counter s = int k * int (length (train_loader args))"
proof (induction k arbitrary: s)
  case 0
  show ?case using fit_epochs_0 [OF 0] by simp
next
  case (Suc k)
  obtain s1 where s1: "fit_epochs score better store best0 env n ests0 args k = Inr s1"
    "epoch_step score better store (train_step env)
          (epochs args * int (length (train_loader args)) div n) args s1 = Inr s"
    using fit_epochs_Suc [OF Suc.prems] by blast
  show ?case using Suc.IH [OF s1(1)] epoch_step_fields [OF s1(2)] by (simp add: algebra_simps)
qed

lemma fit_epochs_mono:
  assumes step: "\<And>i s s'. fit_epochs score better store best0 env n ests0 args i = Inr s
                   \<Longrightarrow> fit_epochs score better store best0 env n ests0 args (Suc i) = Inr s'
                   \<Longrightarrow> le (best s) (best s')"
    and refl: "\<And>x. le x x" and trans: "\<And>x y z. le x y \<Longrightarrow> le y z \<Longrightarrow> le x z"
    and jk: "j \<le> k"
    and sj: "fit_epochs score better store best0 env n ests0 args j = Inr sj"
  shows "fit_epochs score better store best0 env n ests0 args k = Inr sk
           \<Longrightarrow> le (best sj) (best sk)"
  using jk
proof (induction k arbitrary: sk rule: dec_induct)
  case base
  then show ?case using sj refl by simp
next
  case (step i)
  obtain si where si: "fit_epochs score better store best0 env n ests0 args i = Inr si"
    using fit_epochs_Suc [OF step.prems] by blast
  show ?case using trans [OF step.IH [OF si] assms(1) [OF si step.prems]] .
qed

lemma fit_epochs_no_loader:
  assumes "\<not> loader_truthy (test_loader args)"
  shows "fit_epochs score better store best0 env n ests0 args k = Inr s
           \<Longrightarrow> saved s = [] \<and> best s = best0"
proof (induction k arbitrary: s)
  case 0
  show ?case using fit_epochs_0 [OF 0] by simp
next
  case (Suc k)
  obtain s1 where s1: "fit_epochs score better store best0 env n ests0 args k = Inr s1"
    "epoch_step score better store (train_step env)
          (epochs args * int (length (train_loader args)) div n) args s1 = Inr s"
    using fit_epochs_Suc [OF Suc.prems] by blast
  show ?case using Suc.IH [OF s1(1)] epoch_step_no_loader [OF s1(2) assms] by simp
qed

lemma fit_final_save:
  assumes "fit score better store best0 env n ests0 args = Inr s"
  shows "\<exists>s1. fit_epochs score better store best0 env n ests0 args (nat (epochs args)) = Inr s1
     \<and> estimators s = estimators s1
     \<and> (if save_model args \<and> \<not> loader_truthy (test_loader args)
         then saved s = saved s1 @ [estimators s] else s = s1)"
  using assms by (auto simp: fit_def split: sum.splits if_splits)

lemma fit_no_loader:
  assumes "\<not> loader_truthy (test_loader args)"
    and "fit score better store best0 env n ests0 args = Inr s"
  shows "saved s = (if save_model args then [estimators s] else [])"
proof -
  obtain s1 where s1: "fit_epochs score better store best0 env n ests0 args (nat (epochs args)) = Inr s1"
    "if save_model args \<and> \<not> loader_truthy (test_loader args)
         then saved s = saved s1 @ [estimators s] else s = s1"
    using fit_final_save [OF assms(2)] by blast
  have "saved s1 = []" using fit_epochs_no_loader [OF assms(1) s1(1)] by simp
  then show ?thesis using s1(2) assms(1) by (auto split: if_splits)
qed

lemmas fit_eval = classifier_fit_def classifier_fit_epochs_def regressor_fit_def
  regressor_fit_epochs_def fit_def fit_epochs_def fit_init_def
  validate_parameters_def set_scheduler_def set_optimizer_def cycle_length_def scheduler_step_def
  lr_lambda_def n_iters_per_estimator_def epoch_step_def train_batch_def clip_lr_def
  end_of_epoch_def validation_gate_def validation_acc_def validation_mse_def Let_def
  scenario_env_def scenario_args_def scenario_correct_def scenario_mse_def small_args_def
  short_cycle_state_def eval_nat_numeral

subsection \<open>One boundary check per epoch\<close>

text \<open>
  C3: an epoch that completes advances the counter by the number of batches and then
  tests \<open>counter mod iterations_per_estimator = 0\<close> once, on the value reached at the end
  of its batches, so that it appends at most one snapshot, whatever the length of a cycle;
  in \<^verbatim>\<open>fit\<close>, epoch \<open>k + 1\<close> ends with the counter at \<open>(k + 1) * batches_per_epoch\<close> and
  appends one snapshot exactly when that value is a multiple of
  \<open>epochs * batches_per_epoch div n_estimators\<close>.
\<close>

theorem one_snapshot_per_epoch:
  "(epoch_step score better store step ipe args s = Inr s' \<longrightarrow>
       counter s' = counter s + int (length (train_loader args))
     \<and> estimators s' = (if counter s' mod ipe = 0 then estimators s @ [estimator s']
                         else estimators s)
     \<and> length (estimators s') \<le> length (estimators s) + 1)
   \<and> (classifier_fit_epochs n_correct env n ests0 args k = Inr c
        \<and> classifier_fit_epochs n_correct env n ests0 args (Suc k) = Inr c' \<longrightarrow>
       counter c' = int (Suc k) * int (length (train_loader args))
     \<and> estimators c'
         = (if counter c' mod (epochs args * int (length (train_loader args)) div n) = 0
            then estimators c @ [estimator c'] else estimators c))
   \<and> (regressor_fit_epochs batch_mse env n ests0 args k = Inr r
        \<and> regressor_fit_epochs batch_mse env n ests0 args (Suc k) = Inr r' \<longrightarrow>
       counter r' = int (Suc k) * int (length (train_loader args))
     \<and> estimators r'
         = (if counter r' mod (epochs args * int (length (train_loader args)) div n) = 0
            then estimators r @ [estimator r'] else estimators r))"
proof (intro conjI impI)
  assume a: "epoch_step score better store step ipe args s = Inr s'"
  show "counter s' = counter s + int (length (train_loader args))"
    using epoch_step_fields [OF a] by simp
  show e: "estimators s' = (if counter s' mod ipe = 0 then estimators s @ [estimator s']
                         else estimators s)"
    using epoch_step_fields [OF a] by simp
  show "length (estimators s') \<le> length (estimators s) + 1"
    using e by (simp split: if_splits)
next
  assume a: "classifier_fit_epochs n_correct env n ests0 args k = Inr c
        \<and> classifier_fit_epochs n_correct env n ests0 args (Suc k) = Inr c'"
  then have a1: "classifier_fit_epochs n_correct env n ests0 args k = Inr c"
    and a2: "classifier_fit_epochs n_correct env n ests0 args (Suc k) = Inr c'" by simp_all
  obtain s where s: "classifier_fit_epochs n_correct env n ests0 args k = Inr s"
    "epoch_step (validation_acc n_correct) (\<lambda>acc best_acc. acc > best_acc) (\<lambda>acc. acc)
       (train_step env) (epochs args * int (length (train_loader args)) div n) args s = Inr c'"
    using fit_epochs_Suc [OF a2 [unfolded classifier_fit_epochs_def]]
    unfolding classifier_fit_epochs_def by blast
  have sc: "s = c" using a1 s(1) by simp
  show "counter c' = int (Suc k) * int (length (train_loader args))"
    by (rule fit_epochs_counter [OF a2 [unfolded classifier_fit_epochs_def]])
  show "estimators c'
         = (if counter c' mod (epochs args * int (length (train_loader args)) div n) = 0
            then estimators c @ [estimator c'] else estimators c)"
    using epoch_step_fields [OF s(2)] sc by simp
next
  assume a: "regressor_fit_epochs batch_mse env n ests0 args k = Inr r
        \<and> regressor_fit_epochs batch_mse env n ests0 args (Suc k) = Inr r'"
  then have a1: "regressor_fit_epochs batch_mse env n ests0 args k = Inr r"
    and a2: "regressor_fit_epochs batch_mse env n ests0 args (Suc k) = Inr r'" by simp_all
  obtain s where s: "regressor_fit_epochs batch_mse env n ests0 args k = Inr s"
    "epoch_step (validation_mse batch_mse) mse_better Some
       (train_step env) (epochs args * int (length (train_loader args)) div n) args s = Inr r'"
    using fit_epochs_Suc [OF a2 [unfolded regressor_fit_epochs_def]]
    unfolding regressor_fit_epochs_def by blast
  have sc: "s = r" using a1 s(1) by simp
  show "counter r' = int (Suc k) * int (length (train_loader args))"
    by (rule fit_epochs_counter [OF a2 [unfolded regressor_fit_epochs_def]])
  show "estimators r'
         = (if counter r' mod (epochs args * int (length (train_loader args)) div n) = 0
            then estimators r @ [estimator r'] else estimators r)"
    using epoch_step_fields [OF s(2)] sc by simp
qed

theorem one_snapshot_per_epoch_witness:
  "(\<exists>s'. epoch_step (validation_acc scenario_correct) (\<lambda>acc best_acc. acc > best_acc)
        (\<lambda>acc. acc) (train_step scenario_env) 2
        (small_args\<lparr>train_loader := replicate 4 ()\<rparr>) short_cycle_state = Inr s'
      \<and> counter s' = 4 \<and> estimators s' = [4])
   \<and> (\<exists>c c'. classifier_fit_epochs scenario_correct scenario_env 3 [] scenario_args 1 = Inr c
        \<and> classifier_fit_epochs scenario_correct scenario_env 3 [] scenario_args 2 = Inr c'
        \<and> counter c' = 20 \<and> estimators c = [] \<and> estimators c' = [20])
   \<and> (\<exists>r r'. regressor_fit_epochs scenario_mse scenario_env 3 [] scenario_args 1 = Inr r
        \<and> regressor_fit_epochs scenario_mse scenario_env 3 [] scenario_args 2 = Inr r'
        \<and> counter r' = 20 \<and> estimators r = [] \<and> estimators r' = [20])"
proof -
  let ?args = "small_args\<lparr>train_loader := replicate 4 ()\<rparr>"
  obtain s' where s': "epoch_step (validation_acc scenario_correct) (\<lambda>acc best_acc. acc > best_acc)
        (\<lambda>acc. acc) (train_step scenario_env) 2 ?args short_cycle_state = Inr s'"
    "estimator s' = 4"
    by (simp add: fit_eval)
  obtain c where c: "classifier_fit_epochs scenario_correct scenario_env 3 [] scenario_args 1 = Inr c"
    "estimators c = []"
    by (simp add: fit_eval)
  obtain c' where c': "classifier_fit_epochs scenario_correct scenario_env 3 [] scenario_args (Suc 1) = Inr c'"
    "estimator c' = 20"
    by (simp add: fit_eval)
  obtain r where r: "regressor_fit_epochs scenario_mse scenario_env 3 [] scenario_args 1 = Inr r"
    "estimators r = []"
    by (simp add: fit_eval)
  obtain r' where r': "regressor_fit_epochs scenario_mse scenario_env 3 [] scenario_args (Suc 1) = Inr r'"
    "estimator r' = 20"
    by (simp add: fit_eval)
  have two: "Suc 1 = 2" by simp
  have e: "counter s' = 4 \<and> estimators s' = [4]"
    using one_snapshot_per_epoch [where score = "validation_acc scenario_correct"
        and better = "\<lambda>acc best_acc. acc > best_acc" and store = "\<lambda>acc. acc"
        and step = "train_step scenario_env" and ipe = 2 and args = ?args
        and s = short_cycle_state and s' = s', THEN conjunct1, THEN mp, OF s'(1)] s'(2)
    by (simp add: short_cycle_state_def small_args_def)
  have ce: "counter c' = 20 \<and> estimators c' = [20]"
    using one_snapshot_per_epoch [where args = scenario_args and n_correct = scenario_correct
        and env = scenario_env and n = 3 and ?ests0.0 = "[]" and k = 1 and c = c and c' = c',
        THEN conjunct2, THEN conjunct1, THEN mp, OF conjI [OF c(1) c'(1)]] c(2) c'(2)
    by (simp add: scenario_args_def)
  have re: "counter r' = 20 \<and> estimators r' = [20]"
    using one_snapshot_per_epoch [where args = scenario_args and batch_mse = scenario_mse
        and env = scenario_env and n = 3 and ?ests0.0 = "[]" and k = 1 and r = r and r' = r',
        THEN conjunct2, THEN conjunct2, THEN mp, OF conjI [OF r(1) r'(1)]] r(2) r'(2)
    by (simp add: scenario_args_def)
  have c2: "classifier_fit_epochs scenario_correct scenario_env 3 [] scenario_args 2 = Inr c'"
    using c'(1) by (simp only: two)
  have r2: "regressor_fit_epochs scenario_mse scenario_env 3 [] scenario_args 2 = Inr r'"
    using r'(1) by (simp only: two)
  show ?thesis using s'(1) e c(1) c(2) c2 ce r(1) r(2) r2 re by blast
qed

subsection \<open>Persistence without validation\<close>

text \<open>
  C7, as the code has it: when the validation loader is absent (or has no batches), no
  epoch persists anything, and the final save is made exactly when \<^verbatim>\<open>save_model\<close> is
  true: the persistence target then holds the final ensemble once, and otherwise nothing.
\<close>

theorem final_save_without_validation:
  assumes "\<not> loader_truthy (test_loader args)"
  shows "(classifier_fit_epochs n_correct env n ests0 args k = Inr ck \<longrightarrow> saved ck = [])
     \<and> (classifier_fit n_correct env n ests0 args = Inr c
          \<longrightarrow> saved c = (if save_model args then [estimators c] else []))
     \<and> (regressor_fit_epochs batch_mse env n ests0 args k = Inr rk \<longrightarrow> saved rk = [])
     \<and> (regressor_fit batch_mse env n ests0 args = Inr r
          \<longrightarrow> saved r = (if save_model args then [estimators r] else []))"
proof (intro conjI impI)
  assume a: "classifier_fit_epochs n_correct env n ests0 args k = Inr ck"
  show "saved ck = []"
    using fit_epochs_no_loader [OF assms a [unfolded classifier_fit_epochs_def]] by simp
next
  assume a: "classifier_fit n_correct env n ests0 args = Inr c"
  show "saved c = (if save_model args then [estimators c] else [])"
    by (rule fit_no_loader [OF assms a [unfolded classifier_fit_def]])
next
  assume a: "regressor_fit_epochs batch_mse env n ests0 args k = Inr rk"
  show "saved rk = []"
    using fit_epochs_no_loader [OF assms a [unfolded regressor_fit_epochs_def]] by simp
next
  assume a: "regressor_fit batch_mse env n ests0 args = Inr r"
  show "saved r = (if save_model args then [estimators r] else [])"
    by (rule fit_no_loader [OF assms a [unfolded regressor_fit_def]])
qed

theorem final_save_without_validation_witness:
  "map_sum id saved (classifier_fit scenario_correct scenario_env 1 []
      (small_args\<lparr>save_model := True\<rparr>)) = Inr [[1]]
   \<and> map_sum id saved (regressor_fit scenario_mse scenario_env 1 []
      (small_args\<lparr>save_model := True\<rparr>)) = Inr [[1]]
   \<and> map_sum id saved (classifier_fit_epochs scenario_correct scenario_env 1 []
      (small_args\<lparr>save_model := True\<rparr>) 1) = Inr []
   \<and> map_sum id saved (regressor_fit_epochs scenario_mse scenario_env 1 []
      (small_args\<lparr>save_model := True\<rparr>) 1) = Inr []"
proof -
  let ?args = "small_args\<lparr>save_model := True\<rparr>"
  have h: "\<not> loader_truthy (test_loader ?args)" by (simp add: small_args_def)
  obtain c where c: "classifier_fit scenario_correct scenario_env 1 [] ?args = Inr c"
    "estimators c = [1]"
    by (simp add: fit_eval)
  obtain r where r: "regressor_fit scenario_mse scenario_env 1 [] ?args = Inr r"
    "estimators r = [1]"
    by (simp add: fit_eval)
  obtain ck where ck: "classifier_fit_epochs scenario_correct scenario_env 1 [] ?args 1 = Inr ck"
    by (simp add: fit_eval)
  obtain rk where rk: "regressor_fit_epochs scenario_mse scenario_env 1 [] ?args 1 = Inr rk"
    by (simp add: fit_eval)
  have s: "save_model ?args" by (simp add: small_args_def)
  show ?thesis
    using final_save_without_validation [OF h, of scenario_correct scenario_env 1 "[]" 1 ck c
        scenario_mse rk r] c r ck rk s
    by simp
qed

text \<open>
  A run without validation loader and with \<^verbatim>\<open>save_model=False\<close> collects its snapshot and
  persists nothing.
\<close>

theorem final_save_without_validation_counterexample:
  "map_sum id saved (classifier_fit scenario_correct scenario_env 1 [] small_args) = Inr []
   \<and> map_sum id estimators (classifier_fit scenario_correct scenario_env 1 [] small_args) = Inr [1]"
  by (simp add: fit_eval)

subsection \<open>The validation gate\<close>

lemma fit_epochs_gate:
  assumes "fit_epochs score better store best0 env n ests0 args k = Inr s"
    and "fit_epochs score better store best0 env n ests0 args (Suc k) = Inr s'"
  shows "(best s' = best s \<and> saved s' = saved s)
     \<or> (\<exists>l v. test_loader args = Some l \<and> batches l \<noteq> []
            \<and> score (estimators s') l = Inr v \<and> better v (best s) \<and> best s' = store v
            \<and> saved s' = (if save_model args then saved s @ [estimators s'] else saved s))"
proof -
  obtain s1 where s1: "fit_epochs score better store best0 env n ests0 args k = Inr s1"
    "epoch_step score better store (train_step env)
          (epochs args * int (length (train_loader args)) div n) args s1 = Inr s'"
    using fit_epochs_Suc [OF assms(2)] by blast
  have eq: "s1 = s" using s1(1) assms(1) by simp
  show ?thesis using epoch_step_gate [OF s1(2)] unfolding eq by blast
qed

lemma mse_no_worse_refl: "mse_no_worse x x"
  by (cases x) simp_all

lemma mse_no_worse_trans: "mse_no_worse z y \<Longrightarrow> mse_no_worse y x \<Longrightarrow> mse_no_worse z x"
  by (cases x; cases y; cases z) simp_all

lemma mse_better_no_worse: "mse_better v b \<Longrightarrow> mse_no_worse (Some v) b"
  by (cases b) simp_all

lemma classifier_step_le:
  assumes "fit_epochs score (\<lambda>acc best_acc. acc > best_acc) (\<lambda>acc. acc) best0 env n ests0 args k
             = Inr s"
    and "fit_epochs score (\<lambda>acc best_acc. acc > best_acc) (\<lambda>acc. acc) best0 env n ests0 args (Suc k)
             = Inr s'"
  shows "best s \<le> (best s' :: real)"
  using fit_epochs_gate [OF assms] by auto

lemma regressor_step_le:
  assumes "fit_epochs score mse_better Some best0 env n ests0 args k = Inr s"
    and "fit_epochs score mse_better Some best0 env n ests0 args (Suc k) = Inr s'"
  shows "mse_no_worse (best s') (best s)"
  using fit_epochs_gate [OF assms] mse_no_worse_refl mse_better_no_worse by auto

lemma fit_with_loader:
  assumes "loader_truthy (test_loader args)"
  shows "fit score better store best0 env n ests0 args
           = fit_epochs score better store best0 env n ests0 args (nat (epochs args))"
  using assms by (simp add: fit_def split: sum.splits)

text \<open>
  C4: in one run of \<^verbatim>\<open>fit\<close> the best score starts at \<open>0\<close> (accuracy) or at the infinite
  error (\<open>None\<close>), with nothing persisted; over the epochs it never gets worse; and an
  epoch either leaves the best score and the persistence target as they were, or ran one
  validation whose score is strictly better than the best so far, made that score the
  best, and (when \<^verbatim>\<open>save_model\<close> is true) persisted the current ensemble once. With a
  validation loader in use, \<^verbatim>\<open>fit\<close> ends in the state after its last epoch, without a
  further save.
\<close>

theorem best_score_non_worsening:
  "(classifier_fit_epochs n_correct env n ests0 args 0 = Inr c0
       \<longrightarrow> best c0 = 0 \<and> saved c0 = [])
   \<and> (j \<le> k \<and> classifier_fit_epochs n_correct env n ests0 args j = Inr cj
        \<and> classifier_fit_epochs n_correct env n ests0 args k = Inr ck
        \<and> classifier_fit_epochs n_correct env n ests0 args (Suc k) = Inr ck' \<longrightarrow>
         best cj \<le> best ck \<and> best ck \<le> best ck'
       \<and> ((best ck' = best ck \<and> saved ck' = saved ck)
          \<or> (\<exists>l acc. test_loader args = Some l
                \<and> validation_acc n_correct (estimators ck') l = Inr acc
                \<and> best ck < acc \<and> best ck' = acc
                \<and> saved ck' = (if save_model args then saved ck @ [estimators ck']
                                else saved ck))))
   \<and> (regressor_fit_epochs batch_mse env n ests0 args 0 = Inr r0
       \<longrightarrow> best r0 = None \<and> saved r0 = [])
   \<and> (j \<le> k \<and> regressor_fit_epochs batch_mse env n ests0 args j = Inr rj
        \<and> regressor_fit_epochs batch_mse env n ests0 args k = Inr rk
        \<and> regressor_fit_epochs batch_mse env n ests0 args (Suc k) = Inr rk' \<longrightarrow>
         mse_no_worse (best rk) (best rj) \<and> mse_no_worse (best rk') (best rk)
       \<and> ((best rk' = best rk \<and> saved rk' = saved rk)
          \<or> (\<exists>l mse. test_loader args = Some l
                \<and> validation_mse batch_mse (estimators rk') l = Inr mse
                \<and> mse_better mse (best rk) \<and> best rk' = Some mse
                \<and> saved rk' = (if save_model args then saved rk @ [estimators rk']
                                else saved rk))))
   \<and> (loader_truthy (test_loader args) \<longrightarrow>
         classifier_fit n_correct env n ests0 args
           = classifier_fit_epochs n_correct env n ests0 args (nat (epochs args))
       \<and> regressor_fit batch_mse env n ests0 args
           = regressor_fit_epochs batch_mse env n ests0 args (nat (epochs args)))"
proof (intro conjI impI)
  assume a: "classifier_fit_epochs n_correct env n ests0 args 0 = Inr c0"
  show "best c0 = 0" "saved c0 = []"
    using fit_epochs_0 [OF a [unfolded classifier_fit_epochs_def]] by simp_all
next
  assume a: "regressor_fit_epochs batch_mse env n ests0 args 0 = Inr r0"
  show "best r0 = None" "saved r0 = []"
    using fit_epochs_0 [OF a [unfolded regressor_fit_epochs_def]] by simp_all
next
  assume a: "j \<le> k \<and> classifier_fit_epochs n_correct env n ests0 args j = Inr cj
        \<and> classifier_fit_epochs n_correct env n ests0 args k = Inr ck
        \<and> classifier_fit_epochs n_correct env n ests0 args (Suc k) = Inr ck'"
  then have jk: "j \<le> k"
    and cj: "fit_epochs (validation_acc n_correct) (\<lambda>acc best_acc. acc > best_acc) (\<lambda>acc. acc) 0
               env n ests0 args j = Inr cj"
    and ck: "fit_epochs (validation_acc n_correct) (\<lambda>acc best_acc. acc > best_acc) (\<lambda>acc. acc) 0
               env n ests0 args k = Inr ck"
    and ck': "fit_epochs (validation_acc n_correct) (\<lambda>acc best_acc. acc > best_acc) (\<lambda>acc. acc) 0
               env n ests0 args (Suc k) = Inr ck'"
    unfolding classifier_fit_epochs_def by simp_all
  show "best cj \<le> best ck"
    by (rule fit_epochs_mono [where le = "(\<le>)", OF classifier_step_le _ _ jk cj ck]) simp_all
  show "best ck \<le> best ck'" by (rule classifier_step_le [OF ck ck'])
  show "(best ck' = best ck \<and> saved ck' = saved ck)
          \<or> (\<exists>l acc. test_loader args = Some l
                \<and> validation_acc n_correct (estimators ck') l = Inr acc
                \<and> best ck < acc \<and> best ck' = acc
                \<and> saved ck' = (if save_model args then saved ck @ [estimators ck']
                                else saved ck))"
    using fit_epochs_gate [OF ck ck'] by blast
next
  assume a: "j \<le> k \<and> regressor_fit_epochs batch_mse env n ests0 args j = Inr rj
        \<and> regressor_fit_epochs batch_mse env n ests0 args k = Inr rk
        \<and> regressor_fit_epochs batch_mse env n ests0 args (Suc k) = Inr rk'"
  then have jk: "j \<le> k"
    and rj: "fit_epochs (validation_mse batch_mse) mse_better Some None env n ests0 args j = Inr rj"
    and rk: "fit_epochs (validation_mse batch_mse) mse_better Some None env n ests0 args k = Inr rk"
    and rk': "fit_epochs (validation_mse batch_mse) mse_better Some None env n ests0 args (Suc k)
                = Inr rk'"
    unfolding regressor_fit_epochs_def by simp_all
  show "mse_no_worse (best rk) (best rj)"
    by (rule fit_epochs_mono [where le = "\<lambda>old new. mse_no_worse new old",
          OF regressor_step_le _ _ jk rj rk])
      (auto intro: mse_no_worse_refl mse_no_worse_trans)
  show "mse_no_worse (best rk') (best rk)" by (rule regressor_step_le [OF rk rk'])
  show "(best rk' = best rk \<and> saved rk' = saved rk)
          \<or> (\<exists>l mse. test_loader args = Some l
                \<and> validation_mse batch_mse (estimators rk') l = Inr mse
                \<and> mse_better mse (best rk) \<and> best rk' = Some mse
                \<and> saved rk' = (if save_model args then saved rk @ [estimators rk']
                                else saved rk))"
    using fit_epochs_gate [OF rk rk'] by blast
next
  assume t: "loader_truthy (test_loader args)"
  show "classifier_fit n_correct env n ests0 args
           = classifier_fit_epochs n_correct env n ests0 args (nat (epochs args))"
    unfolding classifier_fit_def classifier_fit_epochs_def by (rule fit_with_loader [OF t])
  show "regressor_fit batch_mse env n ests0 args
           = regressor_fit_epochs batch_mse env n ests0 args (nat (epochs args))"
    unfolding regressor_fit_def regressor_fit_epochs_def by (rule fit_with_loader [OF t])
qed

theorem best_score_non_worsening_witness:
  "(\<exists>c0 ck ck'. classifier_fit_epochs scenario_correct scenario_env 3 [] scenario_args 0 = Inr c0
       \<and> classifier_fit_epochs scenario_correct scenario_env 3 [] scenario_args 1 = Inr ck
       \<and> classifier_fit_epochs scenario_correct scenario_env 3 [] scenario_args 2 = Inr ck'
       \<and> best c0 = 0 \<and> best ck = 0 \<and> best ck' = 70 \<and> best c0 \<le> best ck \<and> best ck \<le> best ck'
       \<and> saved ck = [] \<and> saved ck' = [[20]])
   \<and> (\<exists>r0 rk rk'. regressor_fit_epochs scenario_mse scenario_env 3 [] scenario_args 0 = Inr r0
       \<and> regressor_fit_epochs scenario_mse scenario_env 3 [] scenario_args 1 = Inr rk
       \<and> regressor_fit_epochs scenario_mse scenario_env 3 [] scenario_args 2 = Inr rk'
       \<and> best r0 = None \<and> best rk = None \<and> best rk' = Some 3
       \<and> mse_no_worse (best rk) (best r0) \<and> mse_no_worse (best rk') (best rk)
       \<and> saved rk = [] \<and> saved rk' = [[20]])
   \<and> classifier_fit scenario_correct scenario_env 3 [] scenario_args
       = classifier_fit_epochs scenario_correct scenario_env 3 [] scenario_args 6"
proof -
  obtain c0 where c0: "classifier_fit_epochs scenario_correct scenario_env 3 [] scenario_args 0 = Inr c0"
    by (simp add: fit_eval)
  obtain ck where ck: "classifier_fit_epochs scenario_correct scenario_env 3 [] scenario_args 1 = Inr ck"
    "best ck = 0" "saved ck = []"
    by (simp add: fit_eval)
  obtain ck' where ck': "classifier_fit_epochs scenario_correct scenario_env 3 [] scenario_args (Suc 1) = Inr ck'"
    "best ck' = 70" "saved ck' = [[20]]"
    by (simp add: fit_eval)
  obtain r0 where r0: "regressor_fit_epochs scenario_mse scenario_env 3 [] scenario_args 0 = Inr r0"
    by (simp add: fit_eval)
  obtain rk where rk: "regressor_fit_epochs scenario_mse scenario_env 3 [] scenario_args 1 = Inr rk"
    "best rk = None" "saved rk = []"
    by (simp add: fit_eval)
  obtain rk' where rk': "regressor_fit_epochs scenario_mse scenario_env 3 [] scenario_args (Suc 1) = Inr rk'"
    "best rk' = Some 3" "saved rk' = [[20]]"
    by (simp add: fit_eval)
  have le: "(0::nat) \<le> 1" by simp
  have t: "loader_truthy (test_loader scenario_args)" by (simp add: scenario_args_def)
  note inst = best_score_non_worsening [where n_correct = scenario_correct and env = scenario_env
      and n = 3 and ?ests0.0 = "[]" and args = scenario_args and j = 0 and k = 1
      and batch_mse = scenario_mse and ?c0.0 = c0 and cj = c0 and ck = ck and ck' = ck'
      and ?r0.0 = r0 and rj = r0 and rk = rk and rk' = rk']
  have i0: "best c0 = 0" using inst [THEN conjunct1, THEN mp, OF c0] by simp
  have c: "best c0 \<le> best ck \<and> best ck \<le> best ck'"
    using inst [THEN conjunct2, THEN conjunct1, THEN mp, OF conjI [OF le conjI [OF c0 conjI [OF ck(1) ck'(1)]]]]
    by simp
  have j0: "best r0 = None"
    using inst [THEN conjunct2, THEN conjunct2, THEN conjunct1, THEN mp, OF r0] by simp
  have r: "mse_no_worse (best rk) (best r0) \<and> mse_no_worse (best rk') (best rk)"
    using inst [THEN conjunct2, THEN conjunct2, THEN conjunct2, THEN conjunct1, THEN mp,
        OF conjI [OF le conjI [OF r0 conjI [OF rk(1) rk'(1)]]]]
    by simp
  have f: "classifier_fit scenario_correct scenario_env 3 [] scenario_args
       = classifier_fit_epochs scenario_correct scenario_env 3 [] scenario_args 6"
    using inst [THEN conjunct2, THEN conjunct2, THEN conjunct2, THEN conjunct2, THEN mp, OF t]
    by (simp add: scenario_args_def)
  have two: "Suc 1 = 2" by simp
  have ck2: "classifier_fit_epochs scenario_correct scenario_env 3 [] scenario_args 2 = Inr ck'"
    using ck'(1) by (simp only: two)
  have rk2: "regressor_fit_epochs scenario_mse scenario_env 3 [] scenario_args 2 = Inr rk'"
    using rk'(1) by (simp only: two)
  have cls: "\<exists>c0 ck ck'. classifier_fit_epochs scenario_correct scenario_env 3 [] scenario_args 0 = Inr c0
       \<and> classifier_fit_epochs scenario_correct scenario_env 3 [] scenario_args 1 = Inr ck
       \<and> classifier_fit_epochs scenario_correct scenario_env 3 [] scenario_args 2 = Inr ck'
       \<and> best c0 = 0 \<and> best ck = 0 \<and> best ck' = 70 \<and> best c0 \<le> best ck \<and> best ck \<le> best ck'
       \<and> saved ck = [] \<and> saved ck' = [[20]]"
    using c0 ck ck2 ck'(2,3) i0 c by blast
  have reg: "\<exists>r0 rk rk'. regressor_fit_epochs scenario_mse scenario_env 3 [] scenario_args 0 = Inr r0
       \<and> regressor_fit_epochs scenario_mse scenario_env 3 [] scenario_args 1 = Inr rk
       \<and> regressor_fit_epochs scenario_mse scenario_env 3 [] scenario_args 2 = Inr rk'
       \<and> best r0 = None \<and> best rk = None \<and> best rk' = Some 3
       \<and> mse_no_worse (best rk) (best r0) \<and> mse_no_worse (best rk') (best rk)
       \<and> saved rk = [] \<and> saved rk' = [[20]]"
    using r0 rk rk2 rk'(2,3) j0 r by blast
  show ?thesis using cls reg f by (intro conjI)
qed

text \<open>
  The end-to-end scenario: snapshots after epochs 2, 4 and 6 (20, 40 and 60 updates), the
  accuracies 70, 65, 80 give the best scores 70, 70, 80, and the ensemble is persisted at
  the first and the third snapshot only.
\<close>

lemma scenario_classifier_run:
  "map_sum id estimators (classifier_fit scenario_correct scenario_env 3 [] scenario_args)
     = Inr [20, 40, 60]
   \<and> map_sum id best (classifier_fit_epochs scenario_correct scenario_env 3 [] scenario_args 2)
     = Inr 70
   \<and> map_sum id best (classifier_fit_epochs scenario_correct scenario_env 3 [] scenario_args 4)
     = Inr 70
   \<and> map_sum id best (classifier_fit scenario_correct scenario_env 3 [] scenario_args) = Inr 80
   \<and> map_sum id saved (classifier_fit scenario_correct scenario_env 3 [] scenario_args)
     = Inr [[20], [20, 40, 60]]"
  by (simp add: fit_eval)

subsection \<open>Configuration errors\<close>

lemma clip_lr_error: "clip_lr opt clip = Inl e \<Longrightarrow> \<not> config_error e"
  by (cases clip) (auto simp: clip_lr_def split: if_splits sum.splits)

lemma scheduler_step_error: "scheduler_step sch opt = Inl e \<Longrightarrow> \<not> config_error e"
  by (auto simp: scheduler_step_def lr_lambda_def Let_def split: if_splits sum.splits)

lemma train_batch_error: "train_batch step clip b s = Inl e \<Longrightarrow> \<not> config_error e"
  by (auto simp: train_batch_def Let_def split: sum.splits prod.splits
      dest: clip_lr_error scheduler_step_error)

lemma train_batches_error: "train_batches step clip bs s = Inl e \<Longrightarrow> \<not> config_error e"
proof (induction bs arbitrary: s)
  case Nil
  then show ?case by simp
next
  case (Cons b bs)
  then show ?case by (auto split: sum.splits dest: train_batch_error)
qed

lemma end_of_epoch_error:
  assumes "\<forall>es l e. score es l = Inl e \<longrightarrow> \<not> config_error e"
    and "end_of_epoch score better store ipe ldr save s = Inl e"
  shows "\<not> config_error e"
  using assms
  by (auto simp: end_of_epoch_def Let_def split: if_splits option.splits sum.splits)

lemma epoch_step_error:
  assumes "\<forall>es l e. score es l = Inl e \<longrightarrow> \<not> config_error e"
    and "epoch_step score better store step ipe args s = Inl e"
  shows "\<not> config_error e"
proof (cases "train_batches step (lr_clip args) (train_loader args) s")
  case (Inl e')
  then have "e' = e" using assms(2) by (simp add: epoch_step_def)
  then show ?thesis using train_batches_error Inl by blast
next
  case (Inr s1)
  then have "end_of_epoch score better store ipe (test_loader args) (save_model args) s1 = Inl e"
    using assms(2) by (simp add: epoch_step_def)
  then show ?thesis by (rule end_of_epoch_error [OF assms(1)])
qed

lemma run_epochs_error:
  assumes "\<forall>s e. f s = Inl e \<longrightarrow> \<not> config_error e"
  shows "run_epochs f k s0 = Inl e \<Longrightarrow> \<not> config_error e"
proof (induction k arbitrary: e)
  case 0
  then show ?case by simp
next
  case (Suc k)
  then show ?case using assms by (auto split: sum.splits)
qed

lemma validation_acc_error: "\<forall>es l e. validation_acc nc es l = Inl e \<longrightarrow> \<not> config_error e"
  by (auto simp: validation_acc_def Let_def split: if_splits)

lemma validation_mse_error: "\<forall>es l e. validation_mse bm es l = Inl e \<longrightarrow> \<not> config_error e"
  by (auto simp: validation_mse_def Let_def split: if_splits)

lemma fit_init_error:
  "(fit_init best0 env n ests0 args = Inl e \<and> config_error e)
     \<longleftrightarrow> (validate_parameters n (init_lr args) (lr_clip args) (weight_decay args)
            (epochs args) (log_interval args) = Inl e \<and> config_error e)"
  by (auto simp: fit_init_def set_scheduler_def cycle_length_def n_iters_per_estimator_def
      Let_def split: sum.splits prod.splits if_splits dest: scheduler_step_error)

lemma fit_epochs_error:
  assumes "\<forall>es l e. score es l = Inl e \<longrightarrow> \<not> config_error e"
  shows "(fit_epochs score better store best0 env n ests0 args k = Inl e \<and> config_error e)
     \<longleftrightarrow> (validate_parameters n (init_lr args) (lr_clip args) (weight_decay args)
            (epochs args) (log_interval args) = Inl e \<and> config_error e)"
proof (cases "fit_init best0 env n ests0 args")
  case (Inl e')
  then have "fit_epochs score better store best0 env n ests0 args k = Inl e'"
    by (simp add: fit_epochs_def)
  then show ?thesis using Inl fit_init_error [of best0 env n ests0 args e] by auto
next
  case (Inr p)
  obtain ipe s0 where p: "p = (ipe, s0)" by (cases p)
  have run: "fit_epochs score better store best0 env n ests0 args k
      = run_epochs (epoch_step score better store (train_step env) ipe args) k s0"
    using Inr p by (simp add: fit_epochs_def)
  have step: "\<forall>s e. epoch_step score better store (train_step env) ipe args s = Inl e
                 \<longrightarrow> \<not> config_error e"
    using epoch_step_error [OF assms] by blast
  have "\<not> (fit_epochs score better store best0 env n ests0 args k = Inl e \<and> config_error e)"
    unfolding run
    using run_epochs_error [of "epoch_step score better store (train_step env) ipe args", OF step]
    by blast
  moreover have "\<not> (validate_parameters n (init_lr args) (lr_clip args) (weight_decay args)
            (epochs args) (log_interval args) = Inl e \<and> config_error e)"
    using fit_init_error [of best0 env n ests0 args e] Inr by simp
  ultimately show ?thesis by blast
qed

lemma fit_error:
  assumes "\<forall>es l e. score es l = Inl e \<longrightarrow> \<not> config_error e"
  shows "(fit score better store best0 env n ests0 args = Inl e \<and> config_error e)
     \<longleftrightarrow> (validate_parameters n (init_lr args) (lr_clip args) (weight_decay args)
            (epochs args) (log_interval args) = Inl e \<and> config_error e)"
proof -
  have "fit score better store best0 env n ests0 args = Inl e
      \<longleftrightarrow> fit_epochs score better store best0 env n ests0 args (nat (epochs args)) = Inl e"
    by (auto simp: fit_def split: sum.splits)
  then show ?thesis using fit_epochs_error [OF assms] by simp
qed

lemma validate_lr_clip_rejects:
  "truthy clip \<Longrightarrow>
     (\<exists>e. validate_lr_clip clip = Inl e \<and> config_error e) \<longleftrightarrow> spec_lr_clip_malformed clip"
  by (cases clip) auto

lemma validate_lr_clip_cases:
  "(\<exists>e. validate_lr_clip clip = Inl e \<and> config_error e) \<or> validate_lr_clip clip = Inr ()"
  by (cases clip) auto

lemma validate_parameters_rejects:
  "(\<exists>e. validate_parameters n lr0 clip wd ep li = Inl e \<and> config_error e)
     \<longleftrightarrow> lr0 \<le> 0 \<or> (truthy clip \<and> spec_lr_clip_malformed clip) \<or> wd < 0 \<or> ep \<le> 0
          \<or> li \<le> 0 \<or> (n \<noteq> 0 \<and> ep mod n \<noteq> 0)"
proof (cases "truthy clip")
  case False
  then show ?thesis by (auto simp: validate_parameters_def)
next
  case True
  show ?thesis
  proof (cases "spec_lr_clip_malformed clip")
    case m: True
    then obtain e where "validate_lr_clip clip = Inl e" "config_error e"
      using validate_lr_clip_rejects [OF True] by blast
    then show ?thesis using True m by (auto simp: validate_parameters_def)
  next
    case m: False
    then have "validate_lr_clip clip = Inr ()"
      using validate_lr_clip_rejects [OF True] validate_lr_clip_cases [of clip] by blast
    then show ?thesis using True m by (auto simp: validate_parameters_def)
  qed
qed

text \<open>
  C2, as the code has it: \<^verbatim>\<open>fit\<close> (classifier and regressor) raises a configuration
  error exactly when the initial learning rate is not positive, \<^verbatim>\<open>lr_clip\<close> is truthy and
  malformed, the weight decay is negative, the epoch count or the log interval is not
  positive, or the number of cycles is nonzero and does not divide the epoch count; the
  number of batches per epoch plays no part. The error is raised before the first epoch.
\<close>

theorem fit_configuration_errors:
  "((\<exists>e. classifier_fit n_correct env n ests0 args = Inl e \<and> config_error e)
       \<longleftrightarrow> init_lr args \<le> 0 \<or> (truthy (lr_clip args) \<and> spec_lr_clip_malformed (lr_clip args))
            \<or> weight_decay args < 0 \<or> epochs args \<le> 0 \<or> log_interval args \<le> 0
            \<or> (n \<noteq> 0 \<and> epochs args mod n \<noteq> 0))
   \<and> ((\<exists>e. regressor_fit batch_mse env n ests0 args = Inl e \<and> config_error e)
       \<longleftrightarrow> init_lr args \<le> 0 \<or> (truthy (lr_clip args) \<and> spec_lr_clip_malformed (lr_clip args))
            \<or> weight_decay args < 0 \<or> epochs args \<le> 0 \<or> log_interval args \<le> 0
            \<or> (n \<noteq> 0 \<and> epochs args mod n \<noteq> 0))
   \<and> (classifier_fit n_correct env n ests0 args = Inl e \<and> config_error e
       \<longrightarrow> classifier_fit_epochs n_correct env n ests0 args 0 = Inl e)
   \<and> (regressor_fit batch_mse env n ests0 args = Inl e \<and> config_error e
       \<longrightarrow> regressor_fit_epochs batch_mse env n ests0 args 0 = Inl e)"
proof -
  let ?v = "validate_parameters n (init_lr args) (lr_clip args) (weight_decay args)
            (epochs args) (log_interval args)"
  let ?R = "init_lr args \<le> 0 \<or> (truthy (lr_clip args) \<and> spec_lr_clip_malformed (lr_clip args))
            \<or> weight_decay args < 0 \<or> epochs args \<le> 0 \<or> log_interval args \<le> 0
            \<or> (n \<noteq> 0 \<and> epochs args mod n \<noteq> 0)"
  have v: "(\<exists>e. ?v = Inl e \<and> config_error e) \<longleftrightarrow> ?R"
    by (rule validate_parameters_rejects)
  have c: "\<And>e. (classifier_fit n_correct env n ests0 args = Inl e \<and> config_error e)
              \<longleftrightarrow> (?v = Inl e \<and> config_error e)"
    unfolding classifier_fit_def by (rule fit_error) (rule validation_acc_error)
  have r: "\<And>e. (regressor_fit batch_mse env n ests0 args = Inl e \<and> config_error e)
              \<longleftrightarrow> (?v = Inl e \<and> config_error e)"
    unfolding regressor_fit_def by (rule fit_error) (rule validation_mse_error)
  have c0: "\<And>e. (classifier_fit_epochs n_correct env n ests0 args 0 = Inl e \<and> config_error e)
              \<longleftrightarrow> (?v = Inl e \<and> config_error e)"
    unfolding classifier_fit_epochs_def by (rule fit_epochs_error) (rule validation_acc_error)
  have r0: "\<And>e. (regressor_fit_epochs batch_mse env n ests0 args 0 = Inl e \<and> config_error e)
              \<longleftrightarrow> (?v = Inl e \<and> config_error e)"
    unfolding regressor_fit_epochs_def by (rule fit_epochs_error) (rule validation_mse_error)
  have p1: "(\<exists>e. classifier_fit n_correct env n ests0 args = Inl e \<and> config_error e) \<longleftrightarrow> ?R"
    using c v by simp
  have p2: "(\<exists>e. regressor_fit batch_mse env n ests0 args = Inl e \<and> config_error e) \<longleftrightarrow> ?R"
    using r v by simp
  have p3: "classifier_fit n_correct env n ests0 args = Inl e \<and> config_error e
       \<longrightarrow> classifier_fit_epochs n_correct env n ests0 args 0 = Inl e"
    using c [of e] c0 [of e] by blast
  have p4: "regressor_fit batch_mse env n ests0 args = Inl e \<and> config_error e
       \<longrightarrow> regressor_fit_epochs batch_mse env n ests0 args 0 = Inl e"
    using r [of e] r0 [of e] by blast
  show ?thesis using p1 p2 p3 p4 by (intro conjI)
qed

theorem fit_configuration_errors_witness:
  "classifier_fit scenario_correct scenario_env 2 [] (small_args\<lparr>train_loader := [(), ()], epochs := 3\<rparr>)
     = Inl (ValueError ''epochs should be a multiple of n_estimators'')
   \<and> classifier_fit_epochs scenario_correct scenario_env 2 []
       (small_args\<lparr>train_loader := [(), ()], epochs := 3\<rparr>) 0
     = Inl (ValueError ''epochs should be a multiple of n_estimators'')
   \<and> \<not> (\<exists>e. classifier_fit scenario_correct scenario_env 3 [] scenario_args = Inl e
            \<and> config_error e)
   \<and> \<not> (\<exists>e. regressor_fit scenario_mse scenario_env 3 [] scenario_args = Inl e
            \<and> config_error e)"
proof -
  let ?args = "small_args\<lparr>train_loader := [(), ()], epochs := 3\<rparr>"
  let ?e = "ValueError ''epochs should be a multiple of n_estimators''"
  have rej: "classifier_fit scenario_correct scenario_env 2 [] ?args = Inl ?e"
    by (simp add: fit_eval)
  have ce: "config_error ?e" by simp
  have z: "classifier_fit_epochs scenario_correct scenario_env 2 [] ?args 0 = Inl ?e"
    using fit_configuration_errors [where n_correct = scenario_correct and env = scenario_env
        and n = 2 and ?ests0.0 = "[]" and args = ?args and e = ?e,
        THEN conjunct2, THEN conjunct2, THEN conjunct1, THEN mp, OF conjI [OF rej ce]] .
  have acc: "\<not> (\<exists>e. classifier_fit scenario_correct scenario_env 3 [] scenario_args = Inl e
            \<and> config_error e)"
    using fit_configuration_errors [where n_correct = scenario_correct and env = scenario_env
        and n = 3 and ?ests0.0 = "[]" and args = scenario_args, THEN conjunct1]
    by (simp add: scenario_args_def)
  have accr: "\<not> (\<exists>e. regressor_fit scenario_mse scenario_env 3 [] scenario_args = Inl e
            \<and> config_error e)"
    using fit_configuration_errors [where batch_mse = scenario_mse and env = scenario_env
        and n = 3 and ?ests0.0 = "[]" and args = scenario_args, THEN conjunct2, THEN conjunct1]
    by (simp add: scenario_args_def)
  show ?thesis using rej z acc accr by (intro conjI)
qed

text \<open>
  Three epochs of two batches with two cycles: the product 6 is divisible by 2 and the
  specification's list rejects nothing, yet \<^verbatim>\<open>fit\<close> raises. And with the empty list as
  \<^verbatim>\<open>lr_clip\<close>, which is not a two-element list, \<^verbatim>\<open>fit\<close> runs to its end.
\<close>

theorem fit_configuration_errors_counterexample:
  "classifier_fit scenario_correct scenario_env 2 [] (small_args\<lparr>train_loader := [(), ()], epochs := 3\<rparr>)
     = Inl (ValueError ''epochs should be a multiple of n_estimators'')
   \<and> \<not> spec_rejects 2 2 (1 / 10) ClipNone 0 3 1
   \<and> map_sum id estimators
        (classifier_fit scenario_correct scenario_env 1 [] (small_args\<lparr>lr_clip := ClipSeq []\<rparr>))
     = Inr [1]
   \<and> spec_rejects 1 1 (1 / 10) (ClipSeq []) 0 1 1"
  by (simp add: fit_eval spec_rejects_def)

end
